theory Spec2Isabelle
  imports Complex_Main "HOL-Library.Word" "HOL-Library.Sublist" "HOL-Library.AList"
    "HOL-Library.Code_Target_Numeral"
begin

unbundle bit_operations_syntax

section \<open>Python values handled by the client\<close>

text \<open>
  The client never looks inside a payload beyond membership tests, subscripts and
  equality with a string literal, so the values that \<^verbatim>\<open>response.json()\<close> can
  produce are modelled as one datatype. Python's \<^verbatim>\<open>None\<close> and JSON's
  \<^verbatim>\<open>null\<close> are the same Python value; both are \<open>JNull\<close>. A \<^verbatim>\<open>dict\<close> is
  an association list in insertion order, which is what \<open>AList.update\<close> maintains.
\<close>

datatype json =
    JNull
  | JBool bool
  | JInt int
  | JFloat rat
  | JStr string
  | JArr "json list"
  | JObj "(string \<times> json) list"

datatype error =
    ClientConnectionError
  | ClientResponseError nat
  | JSONDecodeError
  | UnboundLocalError
  | TypeError
  | KeyError string
  | UnicodeEncodeError
  | ValueError

text \<open>\<^verbatim>\<open>k in v\<close> for a string \<open>k\<close>: key membership on a dict, element membership on a
  list, substring test on a string, \<^verbatim>\<open>TypeError\<close> on anything else.\<close>

definition py_in :: "string \<Rightarrow> json \<Rightarrow> error + bool" where
  "py_in k v =
     (case v of
        JObj kvs \<Rightarrow> Inr (k \<in> set (map fst kvs))
      | JArr xs \<Rightarrow> Inr (JStr k \<in> set xs)
      | JStr s \<Rightarrow> Inr (sublist k s)
      | _ \<Rightarrow> Inl TypeError)"

text \<open>\<^verbatim>\<open>v[k]\<close> for a string \<open>k\<close>: lookup on a dict (\<^verbatim>\<open>KeyError\<close> when missing),
  \<^verbatim>\<open>TypeError\<close> on lists, strings and scalars.\<close>

definition py_getitem :: "json \<Rightarrow> string \<Rightarrow> error + json" where
  "py_getitem v k =
     (case v of
        JObj kvs \<Rightarrow> (case map_of kvs k of None \<Rightarrow> Inl (KeyError k) | Some x \<Rightarrow> Inr x)
      | _ \<Rightarrow> Inl TypeError)"

text \<open>\<^verbatim>\<open>v[k] = x\<close> for a string \<open>k\<close>: update on a dict, \<^verbatim>\<open>TypeError\<close> otherwise
  (a list accepts integer indices only).\<close>

definition py_setitem :: "json \<Rightarrow> string \<Rightarrow> json \<Rightarrow> error + json" where
  "py_setitem v k x =
     (case v of
        JObj kvs \<Rightarrow> Inr (JObj (AList.update k x kvs))
      | _ \<Rightarrow> Inl TypeError)"

text \<open>\<^verbatim>\<open>for unit in v\<close>: the elements of a list, the keys of a dict, the characters
  of a string; \<^verbatim>\<open>TypeError\<close> for \<^verbatim>\<open>None\<close> and the scalars.\<close>

definition py_iter :: "json \<Rightarrow> error + json list" where
  "py_iter v =
     (case v of
        JArr xs \<Rightarrow> Inr xs
      | JObj kvs \<Rightarrow> Inr (map (\<lambda>kv. JStr (fst kv)) kvs)
      | JStr s \<Rightarrow> Inr (map (\<lambda>c. JStr [c]) s)
      | _ \<Rightarrow> Inl TypeError)"

text \<open>\<^verbatim>\<open>int(v)\<close>. Parsing a string is left to the runtime parameter \<open>parse\<close>.\<close>

definition py_int :: "(string \<Rightarrow> int option) \<Rightarrow> json \<Rightarrow> error + int" where
  "py_int parse v =
     (case v of
        JBool b \<Rightarrow> Inr (if b then 1 else 0)
      | JInt n \<Rightarrow> Inr n
      | JFloat q \<Rightarrow> Inr (if 0 \<le> q then \<lfloor>q\<rfloor> else \<lceil>q\<rceil>)
      | JStr s \<Rightarrow> (case parse s of None \<Rightarrow> Inl ValueError | Some n \<Rightarrow> Inr n)
      | _ \<Rightarrow> Inl TypeError)"

subsection \<open>Decimal rendering of integers\<close>

definition digit_char :: "nat \<Rightarrow> char" where
  "digit_char d = ''0123456789'' ! d"

fun str_nat :: "nat \<Rightarrow> string" where
  "str_nat n = (if n < 10 then [digit_char n] else str_nat (n div 10) @ [digit_char (n mod 10)])"

declare str_nat.simps [simp del]

definition str_int :: "int \<Rightarrow> string" where
  "str_int i = (if i < 0 then CHR ''-'' # str_nat (nat (- i)) else str_nat (nat i))"

text \<open>\<^verbatim>\<open>str(v)\<close> as an f-string applies it: a string is itself, an integer its decimal
  form; the rendering of the other values is the runtime parameter \<open>render\<close>.\<close>

definition py_str :: "(json \<Rightarrow> string) \<Rightarrow> json \<Rightarrow> string" where
  "py_str render v =
     (case v of JStr s \<Rightarrow> s | JInt n \<Rightarrow> str_int n | _ \<Rightarrow> render v)"

section \<open>SHA-512 (FIPS 180-4), as \<^verbatim>\<open>hashlib.sha512\<close> computes it\<close>

definition K512 :: "64 word list" where
  "K512 = [
   0x428A2F98D728AE22, 0x7137449123EF65CD, 0xB5C0FBCFEC4D3B2F, 0xE9B5DBA58189DBBC,
   0x3956C25BF348B538, 0x59F111F1B605D019, 0x923F82A4AF194F9B, 0xAB1C5ED5DA6D8118,
   0xD807AA98A3030242, 0x12835B0145706FBE, 0x243185BE4EE4B28C, 0x550C7DC3D5FFB4E2,
   0x72BE5D74F27B896F, 0x80DEB1FE3B1696B1, 0x9BDC06A725C71235, 0xC19BF174CF692694,
   0xE49B69C19EF14AD2, 0xEFBE4786384F25E3, 0x0FC19DC68B8CD5B5, 0x240CA1CC77AC9C65,
   0x2DE92C6F592B0275, 0x4A7484AA6EA6E483, 0x5CB0A9DCBD41FBD4, 0x76F988DA831153B5,
   0x983E5152EE66DFAB, 0xA831C66D2DB43210, 0xB00327C898FB213F, 0xBF597FC7BEEF0EE4,
   0xC6E00BF33DA88FC2, 0xD5A79147930AA725, 0x06CA6351E003826F, 0x142929670A0E6E70,
   0x27B70A8546D22FFC, 0x2E1B21385C26C926, 0x4D2C6DFC5AC42AED, 0x53380D139D95B3DF,
   0x650A73548BAF63DE, 0x766A0ABB3C77B2A8, 0x81C2C92E47EDAEE6, 0x92722C851482353B,
   0xA2BFE8A14CF10364, 0xA81A664BBC423001, 0xC24B8B70D0F89791, 0xC76C51A30654BE30,
   0xD192E819D6EF5218, 0xD69906245565A910, 0xF40E35855771202A, 0x106AA07032BBD1B8,
   0x19A4C116B8D2D0C8, 0x1E376C085141AB53, 0x2748774CDF8EEB99, 0x34B0BCB5E19B48A8,
   0x391C0CB3C5C95A63, 0x4ED8AA4AE3418ACB, 0x5B9CCA4F7763E373, 0x682E6FF3D6B2B8A3,
   0x748F82EE5DEFB2FC, 0x78A5636F43172F60, 0x84C87814A1F0AB72, 0x8CC702081A6439EC,
   0x90BEFFFA23631E28, 0xA4506CEBDE82BDE9, 0xBEF9A3F7B2C67915, 0xC67178F2E372532B,
   0xCA273ECEEA26619C, 0xD186B8C721C0C207, 0xEADA7DD6CDE0EB1E, 0xF57D4F7FEE6ED178,
   0x06F067AA72176FBA, 0x0A637DC5A2C898A6, 0x113F9804BEF90DAE, 0x1B710B35131C471B,
   0x28DB77F523047D84, 0x32CAAB7B40C72493, 0x3C9EBE0A15C9BEBC, 0x431D67C49C100D4C,
   0x4CC5D4BECB3E42B6, 0x597F299CFC657E2A, 0x5FCB6FAB3AD6FAEC, 0x6C44198C4A475817
  ]"

type_synonym hstate =
  "64 word \<times> 64 word \<times> 64 word \<times> 64 word \<times> 64 word \<times> 64 word \<times> 64 word \<times> 64 word"

definition H512 :: hstate where
  "H512 =
  (0x6A09E667F3BCC908, 0xBB67AE8584CAA73B, 0x3C6EF372FE94F82B, 0xA54FF53A5F1D36F1,
   0x510E527FADE682D1, 0x9B05688C2B3E6C1F, 0x1F83D9ABFB41BD6B, 0x5BE0CD19137E2179)"

definition Ch :: "64 word \<Rightarrow> 64 word \<Rightarrow> 64 word \<Rightarrow> 64 word" where
  "Ch x y z = (x AND y) XOR (NOT x AND z)"

definition Maj :: "64 word \<Rightarrow> 64 word \<Rightarrow> 64 word \<Rightarrow> 64 word" where
  "Maj x y z = (x AND y) XOR (x AND z) XOR (y AND z)"

definition bsig0 :: "64 word \<Rightarrow> 64 word" where
  "bsig0 x = word_rotr 28 x XOR word_rotr 34 x XOR word_rotr 39 x"

definition bsig1 :: "64 word \<Rightarrow> 64 word" where
  "bsig1 x = word_rotr 14 x XOR word_rotr 18 x XOR word_rotr 41 x"

definition ssig0 :: "64 word \<Rightarrow> 64 word" where
  "ssig0 x = word_rotr 1 x XOR word_rotr 8 x XOR drop_bit 7 x"

definition ssig1 :: "64 word \<Rightarrow> 64 word" where
  "ssig1 x = word_rotr 19 x XOR word_rotr 61 x XOR drop_bit 6 x"

definition sha512_pad :: "nat list \<Rightarrow> nat list" where
  "sha512_pad m =
     m @ [128] @ replicate ((239 - length m mod 128) mod 128) 0
       @ map (\<lambda>i. (8 * length m) div 256 ^ (15 - i) mod 256) [0..<16]"

function chunks :: "nat \<Rightarrow> 'a list \<Rightarrow> 'a list list" where
  "chunks n xs = (if n = 0 \<or> xs = [] then [] else take n xs # chunks n (drop n xs))"
  by pat_completeness auto
termination
  by (relation "measure (\<lambda>(n, xs). length xs)") auto

declare chunks.simps [simp del]

definition be64 :: "nat list \<Rightarrow> 64 word" where
  "be64 bs = foldl (\<lambda>w b. push_bit 8 w OR of_nat b) 0 bs"

fun expand :: "nat \<Rightarrow> 64 word list \<Rightarrow> 64 word list" where
  "expand 0 w = w"
| "expand (Suc n) w =
     (let t = length w
      in expand n (w @ [ssig1 (w ! (t - 2)) + w ! (t - 7) + ssig0 (w ! (t - 15)) + w ! (t - 16)]))"

definition schedule :: "nat list \<Rightarrow> 64 word list" where
  "schedule block = expand 64 (map be64 (chunks 8 block))"

definition round512 :: "hstate \<Rightarrow> 64 word \<times> 64 word \<Rightarrow> hstate" where
  "round512 s kw =
     (case s of (a, b, c, d, e, f, g, h) \<Rightarrow>
        let t1 = h + bsig1 e + Ch e f g + fst kw + snd kw;
            t2 = bsig0 a + Maj a b c
        in (t1 + t2, a, b, c, d + t1, e, f, g))"

definition compress :: "hstate \<Rightarrow> nat list \<Rightarrow> hstate" where
  "compress s block =
     (case s of (a, b, c, d, e, f, g, h) \<Rightarrow>
        case foldl round512 s (zip K512 (schedule block)) of
          (a', b', c', d', e', f', g', h') \<Rightarrow>
            (a + a', b + b', c + c', d + d', e + e', f + f', g + g', h + h'))"

definition sha512 :: "nat list \<Rightarrow> hstate" where
  "sha512 m = foldl compress H512 (chunks 128 (sha512_pad m))"

definition hex64 :: "64 word \<Rightarrow> string" where
  "hex64 w = map (\<lambda>i. ''0123456789abcdef'' ! unat (drop_bit (4 * (15 - i)) w AND 15)) [0..<16]"

definition hexdigest :: "hstate \<Rightarrow> string" where
  "hexdigest s =
     (case s of (a, b, c, d, e, f, g, h) \<Rightarrow> concat (map hex64 [a, b, c, d, e, f, g, h]))"

text \<open>\<^verbatim>\<open>s.encode('ascii')\<close>: the bytes of the string, or \<^verbatim>\<open>UnicodeEncodeError\<close> when a
  character is outside ASCII.\<close>

definition encode_ascii :: "string \<Rightarrow> error + nat list" where
  "encode_ascii s =
     (if list_all (\<lambda>c. of_char c < (128::nat)) s then Inr (map of_char s)
      else Inl UnicodeEncodeError)"

section \<open>Effects: the trace of a run and the outside world\<close>

datatype verb = GET | POST

datatype level = DEBUG | ERROR

text \<open>The log records are kept structured: one constructor per message of the source.\<close>

datatype log_msg =
    TryingToCall string
  | TryingToCallAdjusted string
  | TryingToCallWith string json
  | ErrorWhenCalling error string
  | UnexpectedResponse nat string
  | UnexpectedJson json string
  | Exc error
  | AllData "json list"
  | TryingToSetCharge json
  | TryingToSetDischarge json

datatype event =
    Http verb string "(string \<times> string) list" json
  | Sleep rat
  | Log level log_msg

text \<open>What the session does with a request: the connection fails, or a response arrives
  with a status and a body that \<^verbatim>\<open>response.json()\<close> either parses or rejects.\<close>

datatype body = BadBody | Body json

datatype outcome = NoConnection | Response nat body

text \<open>The outside world answers as a function of everything that happened so far:
  the server, the clock (\<^verbatim>\<open>int(time.time())\<close>), the local date
  (\<^verbatim>\<open>time.strftime("%Y-%m-%d")\<close>), and the two runtime parameters.\<close>

record world =
  http :: "event list \<Rightarrow> verb \<Rightarrow> string \<Rightarrow> (string \<times> string) list \<Rightarrow> json \<Rightarrow> outcome"
  unix_time :: "event list \<Rightarrow> int"
  local_date :: "event list \<Rightarrow> string"
  render :: "json \<Rightarrow> string"
  parse_int :: "string \<Rightarrow> int option"

record client =
  appID :: string
  appSecret :: string

text \<open>A coroutine of the client: it runs from a trace and ends with a value or a raised
  exception, and the trace extended by what it did.\<close>

type_synonym 'a prog = "event list \<Rightarrow> (error + 'a) \<times> event list"

definition ret :: "'a \<Rightarrow> 'a prog" where
  "ret x = (\<lambda>tr. (Inr x, tr))"

definition raise :: "error \<Rightarrow> 'a prog" where
  "raise e = (\<lambda>tr. (Inl e, tr))"

definition seq :: "'a prog \<Rightarrow> ('a \<Rightarrow> 'b prog) \<Rightarrow> 'b prog" where
  "seq m f = (\<lambda>tr. case m tr of (Inl e, tr') \<Rightarrow> (Inl e, tr') | (Inr x, tr') \<Rightarrow> f x tr')"

definition try_except :: "'a prog \<Rightarrow> (error \<Rightarrow> 'a prog) \<Rightarrow> 'a prog" where
  "try_except m h = (\<lambda>tr. case m tr of (Inl e, tr') \<Rightarrow> h e tr' | (Inr x, tr') \<Rightarrow> (Inr x, tr'))"

definition lift :: "error + 'a \<Rightarrow> 'a prog" where
  "lift r = (\<lambda>tr. (r, tr))"

definition emit :: "event \<Rightarrow> unit prog" where
  "emit ev = (\<lambda>tr. (Inr (), tr @ [ev]))"

definition observe :: "(event list \<Rightarrow> 'a) \<Rightarrow> 'a prog" where
  "observe f = (\<lambda>tr. (Inr (f tr), tr))"

text \<open>Reading a local variable that no branch has bound raises.\<close>

definition local_var :: "'a option \<Rightarrow> error + 'a" where
  "local_var v = (case v of None \<Rightarrow> Inl UnboundLocalError | Some x \<Rightarrow> Inr x)"

definition sleep :: "rat \<Rightarrow> unit prog" where
  "sleep d = emit (Sleep d)"

text \<open>\<^verbatim>\<open>session.get\<close> / \<^verbatim>\<open>session.post\<close>: the request goes out, then the world's
  answer decides.\<close>

definition session_request ::
  "world \<Rightarrow> verb \<Rightarrow> string \<Rightarrow> (string \<times> string) list \<Rightarrow> json \<Rightarrow> (nat \<times> body) prog" where
  "session_request w m path hs js =
     (\<lambda>tr. case http w tr m path hs js of
             NoConnection \<Rightarrow> (Inl ClientConnectionError, tr @ [Http m path hs js])
           | Response st b \<Rightarrow> (Inr (st, b), tr @ [Http m path hs js]))"

definition raise_for_status :: "nat \<Rightarrow> unit prog" where
  "raise_for_status st = (if 400 \<le> st then raise (ClientResponseError st) else ret ())"

definition response_json :: "body \<Rightarrow> json prog" where
  "response_json b = (case b of BadBody \<Rightarrow> raise JSONDecodeError | Body j \<Rightarrow> ret j)"

section \<open>The client\<close>

definition BASEURL :: string where
  "BASEURL = ''https://openapi.alphaess.com/api''"

subsection \<open>\<^verbatim>\<open>__headers\<close>\<close>

text \<open>The value of the \<^verbatim>\<open>sign\<close> entry:
  \<^verbatim>\<open>hashlib.sha512((str(appID) + str(appSecret) + str(timestamp)).encode('ascii')).hexdigest()\<close>.\<close>

definition sign :: "string \<Rightarrow> string \<Rightarrow> string \<Rightarrow> error + string" where
  "sign app_id app_secret timestamp =
     (case encode_ascii (app_id @ app_secret @ timestamp) of
        Inl e \<Rightarrow> Inl e
      | Inr bytes \<Rightarrow> Inr (hexdigest (sha512 bytes)))"

definition headers :: "client \<Rightarrow> world \<Rightarrow> (string \<times> string) list prog" where
  "headers c w =
     seq (observe (unix_time w)) (\<lambda>now.
       let timestamp = str_int now in
       seq (lift (sign (appID c) (appSecret c) timestamp)) (\<lambda>sg.
         ret [(''Content-Type'', ''application/json''),
              (''Connection'', ''keep-alive''),
              (''Accept'', ''*/*''),
              (''Accept-Encoding'', ''gzip, deflate, br''),
              (''Cache-Control'', ''no-cache''),
              (''timestamp'', timestamp),
              (''sign'', sg),
              (''appId'', appID c),
              (''timeStamp'', timestamp)]))"

subsection \<open>\<^verbatim>\<open>api_get\<close> and \<^verbatim>\<open>api_post\<close>\<close>

definition log_and_reraise :: "error \<Rightarrow> 'a prog" where
  "log_and_reraise e = seq (emit (Log ERROR (Exc e))) (\<lambda>_. raise e)"

text \<open>The statements that \<^verbatim>\<open>api_get\<close> and \<^verbatim>\<open>api_post\<close> have in common, from
  \<^verbatim>\<open>headers = self.__headers()\<close> to the first read of \<^verbatim>\<open>json_response\<close>. The status
  check of \<^verbatim>\<open>raise_for_status\<close> rejects 400 and above; \<^verbatim>\<open>json_response\<close> is bound
  only when the status is 200.\<close>

definition fetch :: "client \<Rightarrow> world \<Rightarrow> verb \<Rightarrow> string \<Rightarrow> json \<Rightarrow> json prog" where
  "fetch c w m path js =
     seq (headers c w) (\<lambda>hs.
     seq (session_request w m path hs js) (\<lambda>response.
     seq (raise_for_status (fst response)) (\<lambda>_.
     seq (if fst response = 200 then seq (response_json (snd response)) (\<lambda>j. ret (Some j))
          else seq (emit (Log ERROR (UnexpectedResponse (fst response) path))) (\<lambda>_. ret None))
       (\<lambda>bound. lift (local_var bound)))))"

text \<open>The envelope test of \<^verbatim>\<open>api_get\<close>:
  \<^verbatim>\<open>("msg" in r and r["msg"] != "Success") or ("msg" not in r)\<close>, then the test of
  \<^verbatim>\<open>r["data"]\<close>.\<close>

definition get_envelope :: "string \<Rightarrow> json \<Rightarrow> json prog" where
  "get_envelope path json_response =
     seq (lift (py_in ''msg'' json_response)) (\<lambda>has_msg.
       if has_msg then
         seq (lift (py_getitem json_response ''msg'')) (\<lambda>msg.
           if msg \<noteq> JStr ''Success'' then
             seq (emit (Log ERROR (UnexpectedJson json_response path))) (\<lambda>_. ret JNull)
           else
             seq (lift (py_getitem json_response ''data'')) (\<lambda>data.
               if data \<noteq> JNull then ret data
               else seq (emit (Log ERROR (UnexpectedJson json_response path)))
                      (\<lambda>_. ret JNull)))
       else
         seq (emit (Log ERROR (UnexpectedJson json_response path))) (\<lambda>_. ret JNull))"

definition api_get :: "client \<Rightarrow> world \<Rightarrow> string \<Rightarrow> json prog" where
  "api_get c w path =
     try_except
       (seq (fetch c w GET path (JObj [])) (get_envelope path))
       log_and_reraise"

text \<open>The envelope test of \<^verbatim>\<open>api_post\<close>:
  \<^verbatim>\<open>"msg" in r and r["msg"] == "Success"\<close>; when it fails the function falls off its
  end and returns \<^verbatim>\<open>None\<close>.\<close>

definition post_envelope :: "string \<Rightarrow> json \<Rightarrow> json prog" where
  "post_envelope path json_response =
     seq (lift (py_in ''msg'' json_response)) (\<lambda>has_msg.
       if has_msg then
         seq (lift (py_getitem json_response ''msg'')) (\<lambda>msg.
           if msg = JStr ''Success'' then
             seq (lift (py_getitem json_response ''data'')) (\<lambda>data.
               if data = JNull then ret data
               else seq (emit (Log ERROR (UnexpectedJson json_response path)))
                      (\<lambda>_. ret data))
           else ret JNull)
       else ret JNull)"

definition api_post :: "client \<Rightarrow> world \<Rightarrow> string \<Rightarrow> json \<Rightarrow> json prog" where
  "api_post c w path js =
     try_except
       (seq (fetch c w POST path js) (post_envelope path))
       log_and_reraise"

subsection \<open>The endpoint operations\<close>

text \<open>Every endpoint operation has the same shape: build the resource, log it, call
  \<^verbatim>\<open>api_get\<close> or \<^verbatim>\<open>api_post\<close>; its \<^verbatim>\<open>except Exception\<close> clause logs
  and falls off the end of the function, so the operation returns \<^verbatim>\<open>None\<close>.\<close>

definition log_and_swallow :: "string \<Rightarrow> error \<Rightarrow> json prog" where
  "log_and_swallow resource e =
     seq (emit (Log ERROR (ErrorWhenCalling e resource))) (\<lambda>_. ret JNull)"

definition getESSList :: "client \<Rightarrow> world \<Rightarrow> json prog" where
  "getESSList c w =
     (let resource = BASEURL @ ''/getEssList''
      in try_except
           (seq (emit (Log DEBUG (TryingToCall resource))) (\<lambda>_. api_get c w resource))
           (log_and_swallow resource))"

definition getLastPowerData :: "client \<Rightarrow> world \<Rightarrow> json \<Rightarrow> json prog" where
  "getLastPowerData c w sysSn =
     (let resource = BASEURL @ ''/getLastPowerData?sysSn='' @ py_str (render w) sysSn
      in try_except
           (seq (emit (Log DEBUG (TryingToCall resource))) (\<lambda>_. api_get c w resource))
           (log_and_swallow resource))"

definition getOneDayPowerBySn :: "client \<Rightarrow> world \<Rightarrow> json \<Rightarrow> json \<Rightarrow> json prog" where
  "getOneDayPowerBySn c w sysSn queryDate =
     seq (observe (local_date w)) (\<lambda>localdateencapsulated.
       if queryDate = JStr localdateencapsulated then
         (let resource = BASEURL @ ''/getOneDayPowerBySn?sysSn='' @ py_str (render w) sysSn
                           @ ''&queryDate='' @ py_str (render w) queryDate
          in try_except
               (seq (emit (Log DEBUG (TryingToCall resource))) (\<lambda>_. api_get c w resource))
               (log_and_swallow resource))
       else
         (let resource = BASEURL @ ''/getOneDayPowerBySn?sysSn='' @ py_str (render w) sysSn
                           @ ''&queryDate='' @ localdateencapsulated
          in try_except
               (seq (emit (Log DEBUG (TryingToCallAdjusted resource)))
                  (\<lambda>_. api_get c w resource))
               (log_and_swallow resource)))"

definition getSumDataForCustomer :: "client \<Rightarrow> world \<Rightarrow> json \<Rightarrow> json prog" where
  "getSumDataForCustomer c w sysSn =
     (let resource = BASEURL @ ''/getSumDataForCustomer?sysSn='' @ py_str (render w) sysSn
      in try_except
           (seq (emit (Log DEBUG (TryingToCall resource))) (\<lambda>_. api_get c w resource))
           (log_and_swallow resource))"

definition getOneDateEnergyBySn :: "client \<Rightarrow> world \<Rightarrow> json \<Rightarrow> json \<Rightarrow> json prog" where
  "getOneDateEnergyBySn c w sysSn queryDate =
     seq (observe (local_date w)) (\<lambda>localdateencapsulated.
       if queryDate = JStr localdateencapsulated then
         (let resource = BASEURL @ ''/getOneDateEnergyBySn?sysSn='' @ py_str (render w) sysSn
                           @ ''&queryDate='' @ py_str (render w) queryDate
          in try_except
               (seq (emit (Log DEBUG (TryingToCall resource))) (\<lambda>_. api_get c w resource))
               (log_and_swallow resource))
       else
         (let resource = BASEURL @ ''/getOneDateEnergyBySn?sysSn='' @ py_str (render w) sysSn
                           @ ''&queryDate='' @ localdateencapsulated
          in try_except
               (seq (emit (Log DEBUG (TryingToCallAdjusted resource)))
                  (\<lambda>_. api_get c w resource))
               (log_and_swallow resource)))"

definition getChargeConfigInfo :: "client \<Rightarrow> world \<Rightarrow> json \<Rightarrow> json prog" where
  "getChargeConfigInfo c w sysSn =
     (let resource = BASEURL @ ''/getChargeConfigInfo?sysSn='' @ py_str (render w) sysSn
      in try_except
           (seq (emit (Log DEBUG (TryingToCall resource))) (\<lambda>_. api_get c w resource))
           (log_and_swallow resource))"

definition getDisChargeConfigInfo :: "client \<Rightarrow> world \<Rightarrow> json \<Rightarrow> json prog" where
  "getDisChargeConfigInfo c w sysSn =
     (let resource = BASEURL @ ''/getDisChargeConfigInfo?sysSn='' @ py_str (render w) sysSn
      in try_except
           (seq (emit (Log DEBUG (TryingToCall resource))) (\<lambda>_. api_get c w resource))
           (log_and_swallow resource))"

definition updateChargeConfigInfo ::
  "client \<Rightarrow> world \<Rightarrow> json \<Rightarrow> json \<Rightarrow> json \<Rightarrow> json \<Rightarrow> json \<Rightarrow> json \<Rightarrow> json \<Rightarrow> json prog" where
  "updateChargeConfigInfo c w sysSn batHighCap gridCharge timeChae1 timeChae2 timeChaf1 timeChaf2 =
     (let resource = BASEURL @ ''/updateChargeConfigInfo'';
          settings = JObj [(''sysSn'', sysSn), (''batHighCap'', batHighCap),
                           (''gridCharge'', gridCharge), (''timeChae1'', timeChae1),
                           (''timeChae2'', timeChae2), (''timeChaf1'', timeChaf1),
                           (''timeChaf2'', timeChaf2)]
      in try_except
           (seq (emit (Log DEBUG (TryingToCallWith resource settings)))
              (\<lambda>_. api_post c w resource settings))
           (log_and_swallow resource))"

definition updateDisChargeConfigInfo ::
  "client \<Rightarrow> world \<Rightarrow> json \<Rightarrow> json \<Rightarrow> json \<Rightarrow> json \<Rightarrow> json \<Rightarrow> json \<Rightarrow> json \<Rightarrow> json prog" where
  "updateDisChargeConfigInfo c w sysSn batUseCap ctrDis timeDise1 timeDise2 timeDisf1 timeDisf2 =
     (let resource = BASEURL @ ''/updateDisChargeConfigInfo'';
          settings = JObj [(''sysSn'', sysSn), (''batUseCap'', batUseCap),
                           (''ctrDis'', ctrDis), (''timeDise1'', timeDise1),
                           (''timeDise2'', timeDise2), (''timeDisf1'', timeDisf1),
                           (''timeDisf2'', timeDisf2)]
      in try_except
           (seq (emit (Log DEBUG (TryingToCallWith resource settings)))
              (\<lambda>_. api_post c w resource settings))
           (log_and_swallow resource))"

subsection \<open>\<^verbatim>\<open>getdata\<close>\<close>

text \<open>The statements of the loop body from \<^verbatim>\<open>serial = unit["sysSn"]\<close> up to, not
  including, \<^verbatim>\<open>alldata.append(unit)\<close>; the result is the unit after its fields were
  assigned.\<close>

definition enrich :: "client \<Rightarrow> world \<Rightarrow> bool \<Rightarrow> rat \<Rightarrow> json \<Rightarrow> json prog" where
  "enrich c w get_power self_delay unit0 =
     seq (lift (py_getitem unit0 ''sysSn'')) (\<lambda>serial.
     seq (getSumDataForCustomer c w serial) (\<lambda>v1.
     seq (lift (py_setitem unit0 ''SumData'' v1)) (\<lambda>unit1.
     seq (sleep self_delay) (\<lambda>_.
     seq (observe (local_date w)) (\<lambda>d2.
     seq (getOneDateEnergyBySn c w serial (JStr d2)) (\<lambda>v2.
     seq (lift (py_setitem unit1 ''OneDateEnergy'' v2)) (\<lambda>unit2.
     seq (sleep self_delay) (\<lambda>_.
     seq (getLastPowerData c w serial) (\<lambda>v3.
     seq (lift (py_setitem unit2 ''LastPower'' v3)) (\<lambda>unit3.
     seq (sleep self_delay) (\<lambda>_.
     seq (getChargeConfigInfo c w serial) (\<lambda>v4.
     seq (lift (py_setitem unit3 ''ChargeConfig'' v4)) (\<lambda>unit4.
     seq (sleep self_delay) (\<lambda>_.
     seq (getDisChargeConfigInfo c w serial) (\<lambda>v5.
     seq (lift (py_setitem unit4 ''DisChargeConfig'' v5)) (\<lambda>unit5.
       if get_power then
         seq (sleep self_delay) (\<lambda>_.
         seq (observe (local_date w)) (\<lambda>d6.
         seq (getOneDayPowerBySn c w serial (JStr d6)) (\<lambda>v6.
         lift (py_setitem unit5 ''OneDayPower'' v6))))
       else ret unit5))))))))))))))))"

fun getdata_loop ::
  "client \<Rightarrow> world \<Rightarrow> bool \<Rightarrow> rat \<Rightarrow> json list \<Rightarrow> json list \<Rightarrow> json list prog" where
  "getdata_loop c w get_power self_delay [] alldata = ret alldata"
| "getdata_loop c w get_power self_delay (unit0 # rest) alldata =
     seq (lift (py_in ''sysSn'' unit0)) (\<lambda>has_sn.
       if has_sn then
         seq (enrich c w get_power self_delay unit0) (\<lambda>unit1.
         seq (emit (Log DEBUG (AllData (alldata @ [unit1])))) (\<lambda>_.
         getdata_loop c w get_power self_delay rest (alldata @ [unit1])))
       else getdata_loop c w get_power self_delay rest alldata)"

definition getdata :: "client \<Rightarrow> world \<Rightarrow> bool \<Rightarrow> rat \<Rightarrow> json list prog" where
  "getdata c w get_power self_delay =
     try_except
       (seq (getESSList c w) (\<lambda>units.
        seq (lift (py_iter units)) (\<lambda>us.
        getdata_loop c w get_power self_delay us [])))
       log_and_reraise"

subsection \<open>\<^verbatim>\<open>authenticate\<close>\<close>

fun authenticate_loop :: "json list \<Rightarrow> bool \<Rightarrow> error + bool" where
  "authenticate_loop [] success = Inr success"
| "authenticate_loop (unit0 # rest) success =
     (case py_in ''sysSn'' unit0 of
        Inl e \<Rightarrow> Inl e
      | Inr has_sn \<Rightarrow> authenticate_loop rest (if has_sn then True else success))"

definition authenticate :: "client \<Rightarrow> world \<Rightarrow> bool prog" where
  "authenticate c w =
     try_except
       (seq (getESSList c w) (\<lambda>units.
        seq (lift (py_iter units)) (\<lambda>us.
        lift (authenticate_loop us False))))
       log_and_reraise"

subsection \<open>\<^verbatim>\<open>setbatterycharge\<close> and \<^verbatim>\<open>setbatterydischarge\<close>\<close>

text \<open>\<^verbatim>\<open>settings = []\<close> is a list, and each following statement is a subscript
  assignment with a string key.\<close>

definition setbatterycharge ::
  "client \<Rightarrow> world \<Rightarrow> json \<Rightarrow> json \<Rightarrow> json \<Rightarrow> json \<Rightarrow> json \<Rightarrow> json \<Rightarrow> json \<Rightarrow> unit prog" where
  "setbatterycharge c w serial enabled cp1start cp1end cp2start cp2end chargestopsoc =
     try_except
       (seq (lift (py_setitem (JArr []) ''sysSn'' serial)) (\<lambda>s1.
        seq (lift (py_int (parse_int w) enabled)) (\<lambda>n.
        seq (lift (py_setitem s1 ''gridCharge'' (JInt n))) (\<lambda>s2.
        seq (lift (py_setitem s2 ''timeChaf1'' cp1start)) (\<lambda>s3.
        seq (lift (py_setitem s3 ''timeChae1'' cp1end)) (\<lambda>s4.
        seq (lift (py_setitem s4 ''timeChaf2'' cp2start)) (\<lambda>s5.
        seq (lift (py_setitem s5 ''timeChae2'' cp2end)) (\<lambda>s6.
        seq (lift (py_int (parse_int w) chargestopsoc)) (\<lambda>m.
        seq (lift (py_setitem s6 ''batHighCap'' (JInt m))) (\<lambda>s7.
        seq (emit (Log DEBUG (TryingToSetCharge serial))) (\<lambda>_.
        seq (api_post c w ''updateChargeConfigInfo'' s7) (\<lambda>_. ret ()))))))))))))
       log_and_reraise"

definition setbatterydischarge ::
  "client \<Rightarrow> world \<Rightarrow> json \<Rightarrow> json \<Rightarrow> json \<Rightarrow> json \<Rightarrow> json \<Rightarrow> json \<Rightarrow> json \<Rightarrow> unit prog" where
  "setbatterydischarge c w serial enabled dp1start dp1end dp2start dp2end dischargecutoffsoc =
     try_except
       (seq (lift (py_setitem (JArr []) ''sysSn'' serial)) (\<lambda>s1.
        seq (lift (py_int (parse_int w) enabled)) (\<lambda>n.
        seq (lift (py_setitem s1 ''ctrDis'' (JInt n))) (\<lambda>s2.
        seq (lift (py_setitem s2 ''timeDisf1'' dp1start)) (\<lambda>s3.
        seq (lift (py_setitem s3 ''timeDise1'' dp1end)) (\<lambda>s4.
        seq (lift (py_setitem s4 ''timeDisf2'' dp2start)) (\<lambda>s5.
        seq (lift (py_setitem s5 ''timeDise2'' dp2end)) (\<lambda>s6.
        seq (lift (py_int (parse_int w) dischargecutoffsoc)) (\<lambda>m.
        seq (lift (py_setitem s6 ''batUseCap'' (JInt m))) (\<lambda>s7.
        seq (emit (Log DEBUG (TryingToSetDischarge serial))) (\<lambda>_.
        seq (api_post c w ''updateDisChargeConfigInfo'' s7) (\<lambda>_. ret ()))))))))))))
       log_and_reraise"

section \<open>Observations on a run\<close>

definition ascii :: "string \<Rightarrow> bool" where
  "ascii s = list_all (\<lambda>c. of_char c < (128::nat)) s"

definition is_http :: "event \<Rightarrow> bool" where
  "is_http ev = (case ev of Http m path hs js \<Rightarrow> True | _ \<Rightarrow> False)"

definition is_log :: "event \<Rightarrow> bool" where
  "is_log ev = (case ev of Log l msg \<Rightarrow> True | _ \<Rightarrow> False)"

text \<open>What the outside sees of a run: the requests and the pauses, in order.\<close>

datatype effect = Call verb string | Delay rat

fun effect_of :: "event \<Rightarrow> effect list" where
  "effect_of (Http m path hs js) = [Call m path]"
| "effect_of (Sleep d) = [Delay d]"
| "effect_of (Log l msg) = []"

definition effects :: "event list \<Rightarrow> effect list" where
  "effects tr = concat (map effect_of tr)"

text \<open>A call of \<^verbatim>\<open>api_get\<close> or \<^verbatim>\<open>api_post\<close> sends one request once the signature
  is computed, which needs credentials inside ASCII, and none otherwise.\<close>

definition calls :: "client \<Rightarrow> verb \<Rightarrow> string \<Rightarrow> effect list" where
  "calls c m path = (if ascii (appID c @ appSecret c) then [Call m path] else [])"

text \<open>The header dict for a timestamp string and a signature.\<close>

definition mk_headers :: "client \<Rightarrow> string \<Rightarrow> string \<Rightarrow> (string \<times> string) list" where
  "mk_headers c timestamp sg =
     [(''Content-Type'', ''application/json''),
      (''Connection'', ''keep-alive''),
      (''Accept'', ''*/*''),
      (''Accept-Encoding'', ''gzip, deflate, br''),
      (''Cache-Control'', ''no-cache''),
      (''timestamp'', timestamp),
      (''sign'', sg),
      (''appId'', appID c),
      (''timeStamp'', timestamp)]"

text \<open>Devices: the list entries that are dicts, and those that bear a serial number.\<close>

definition is_device :: "json \<Rightarrow> bool" where
  "is_device u = (case u of JObj kvs \<Rightarrow> True | _ \<Rightarrow> False)"

definition has_sn :: "json \<Rightarrow> bool" where
  "has_sn u = (py_in ''sysSn'' u = Inr True)"

definition lacks_sn :: "json \<Rightarrow> bool" where
  "lacks_sn u = (py_in ''sysSn'' u = Inr False)"

definition serial_of :: "json \<Rightarrow> json" where
  "serial_of u = (case py_getitem u ''sysSn'' of Inr s \<Rightarrow> s | Inl e \<Rightarrow> JNull)"

definition sub_fields :: "bool \<Rightarrow> string list" where
  "sub_fields get_power =
     [''SumData'', ''OneDateEnergy'', ''LastPower'', ''ChargeConfig'', ''DisChargeConfig'']
       @ (if get_power then [''OneDayPower''] else [])"

definition own_fields :: "bool \<Rightarrow> json \<Rightarrow> (string \<times> json) list" where
  "own_fields get_power u =
     (case u of
        JObj kvs \<Rightarrow> filter (\<lambda>kv. fst kv \<notin> set (sub_fields get_power)) kvs
      | _ \<Rightarrow> [])"

definition has_fields :: "bool \<Rightarrow> json \<Rightarrow> bool" where
  "has_fields get_power u =
     (case u of
        JObj kvs \<Rightarrow> list_all (\<lambda>k. k \<in> set (map fst kvs)) (sub_fields get_power)
      | _ \<Rightarrow> False)"

text \<open>A record \<open>r\<close> is the enrichment of the list entry \<open>u\<close>: it carries every sub-call
  field, and apart from those fields it is \<open>u\<close>, entry for entry.\<close>

definition enriched :: "bool \<Rightarrow> json \<Rightarrow> json \<Rightarrow> bool" where
  "enriched get_power r u =
     (has_fields get_power r \<and> own_fields get_power r = own_fields get_power u)"

text \<open>The requests and pauses of one device, for the serial \<open>s\<close> and the local dates
  read for its daily-energy call and for its power-curve call.\<close>

definition device_calls ::
  "client \<Rightarrow> world \<Rightarrow> bool \<Rightarrow> rat \<Rightarrow> string \<Rightarrow> string \<Rightarrow> json \<Rightarrow> effect list" where
  "device_calls c w get_power self_delay day_energy day_power s =
     calls c GET (BASEURL @ ''/getSumDataForCustomer?sysSn='' @ py_str (render w) s)
     @ [Delay self_delay]
     @ calls c GET (BASEURL @ ''/getOneDateEnergyBySn?sysSn='' @ py_str (render w) s
                      @ ''&queryDate='' @ day_energy)
     @ [Delay self_delay]
     @ calls c GET (BASEURL @ ''/getLastPowerData?sysSn='' @ py_str (render w) s)
     @ [Delay self_delay]
     @ calls c GET (BASEURL @ ''/getChargeConfigInfo?sysSn='' @ py_str (render w) s)
     @ [Delay self_delay]
     @ calls c GET (BASEURL @ ''/getDisChargeConfigInfo?sysSn='' @ py_str (render w) s)
     @ (if get_power
        then [Delay self_delay]
             @ calls c GET (BASEURL @ ''/getOneDayPowerBySn?sysSn='' @ py_str (render w) s
                              @ ''&queryDate='' @ day_power)
        else [])"

section \<open>Concrete clients and worlds\<close>

definition client0 :: client where
  "client0 = \<lparr>appID = ''alpha'', appSecret = ''secret''\<rparr>"

text \<open>A world whose server answers by verb and path alone, at a fixed time and date.\<close>

definition world_of :: "(verb \<Rightarrow> string \<Rightarrow> outcome) \<Rightarrow> world" where
  "world_of srv =
     \<lparr>http = (\<lambda>tr m path hs js. srv m path),
      unix_time = (\<lambda>tr. 1700000000),
      local_date = (\<lambda>tr. ''2024-01-15''),
      render = (\<lambda>v. ''?''),
      parse_int = (\<lambda>s. None)\<rparr>"

definition envelope :: "string \<Rightarrow> json \<Rightarrow> outcome" where
  "envelope msg data = Response 200 (Body (JObj [(''msg'', JStr msg), (''data'', data)]))"

definition srv_down :: "verb \<Rightarrow> string \<Rightarrow> outcome" where
  "srv_down m path = NoConnection"

definition srv_no_data :: "verb \<Rightarrow> string \<Rightarrow> outcome" where
  "srv_no_data m path = Response 200 (Body (JObj [(''msg'', JStr ''Success'')]))"

definition srv_failed :: "verb \<Rightarrow> string \<Rightarrow> outcome" where
  "srv_failed m path = envelope ''Failed'' JNull"

definition srv_empty :: "verb \<Rightarrow> string \<Rightarrow> outcome" where
  "srv_empty m path = envelope ''Success'' (JArr [])"

definition srv_one :: "verb \<Rightarrow> string \<Rightarrow> outcome" where
  "srv_one m path = envelope ''Success'' (JArr [JObj [(''sysSn'', JStr ''X1'')]])"

definition srv_no_serial :: "verb \<Rightarrow> string \<Rightarrow> outcome" where
  "srv_no_serial m path = envelope ''Success'' (JArr [JObj [(''name'', JStr ''spare'')]])"

text \<open>Two devices; the summary of the second is refused by the vendor.\<close>

definition srv_two :: "verb \<Rightarrow> string \<Rightarrow> outcome" where
  "srv_two m path =
     (if path = ''https://openapi.alphaess.com/api/getEssList''
      then envelope ''Success'' (JArr [JObj [(''sysSn'', JStr ''X1'')], JObj [(''sysSn'', JStr ''X2'')]])
      else if path = ''https://openapi.alphaess.com/api/getSumDataForCustomer?sysSn=X2''
      then envelope ''Failed'' JNull
      else envelope ''Success'' (JInt 7))"

section \<open>Reading a decimal string back\<close>

definition digit_val :: "char \<Rightarrow> nat" where
  "digit_val ch = of_char ch - 48"

definition val_str :: "string \<Rightarrow> nat" where
  "val_str s = foldl (\<lambda>n ch. 10 * n + digit_val ch) 0 s"

section \<open>How the building blocks run\<close>

lemmas prog_defs = ret_def raise_def seq_def try_except_def lift_def emit_def observe_def sleep_def

lemma ascii_append [simp]: "ascii (xs @ ys) = (ascii xs \<and> ascii ys)"
  by (simp add: ascii_def)

lemma digit_char_ascii: "d < 10 \<Longrightarrow> of_char (digit_char d) < (128::nat)"
proof -
  assume "d < 10"
  then have "d \<in> {0,1,2,3,4,5,6,7,8,9}" by auto
  then show ?thesis by (auto simp: digit_char_def)
qed

lemma str_nat_ascii: "ascii (str_nat n)"
proof (induction n rule: str_nat.induct)
  case (1 n)
  show ?case
  proof (cases "n < 10")
    case True
    then show ?thesis by (subst str_nat.simps) (simp add: ascii_def digit_char_ascii)
  next
    case False
    then have "ascii (str_nat (n div 10))" using 1 by simp
    moreover have "of_char (digit_char (n mod 10)) < (128::nat)"
      by (rule digit_char_ascii) simp
    ultimately show ?thesis using False
      by (subst str_nat.simps) (simp add: ascii_def)
  qed
qed

lemma str_int_ascii [simp]: "ascii (str_int i)"
  using str_nat_ascii by (simp add: str_int_def ascii_def)

lemma sign_ascii:
  "sign a s t = (if ascii (a @ s @ t) then Inr (hexdigest (sha512 (map of_char (a @ s @ t)))) else Inl UnicodeEncodeError)"
  by (simp add: sign_def encode_ascii_def ascii_def)

lemma headers_run:
  "headers c w tr =
     (if ascii (appID c @ appSecret c)
      then (Inr (mk_headers c (str_int (unix_time w tr))
                  (hexdigest (sha512 (map of_char (appID c @ appSecret c @ str_int (unix_time w tr)))))), tr)
      else (Inl UnicodeEncodeError, tr))"
  by (simp add: headers_def prog_defs mk_headers_def Let_def sign_ascii)

lemma fetch_run:
  "fetch c w m path js tr =
     (case headers c w tr of
        (Inl e, t) \<Rightarrow> (Inl e, tr)
      | (Inr hs, t) \<Rightarrow>
         (case http w tr m path hs js of
            NoConnection \<Rightarrow> (Inl ClientConnectionError, tr @ [Http m path hs js])
          | Response st b \<Rightarrow>
              if 400 \<le> st then (Inl (ClientResponseError st), tr @ [Http m path hs js])
              else if st \<noteq> 200 then
                (Inl UnboundLocalError, tr @ [Http m path hs js, Log ERROR (UnexpectedResponse st path)])
              else (case b of
                      BadBody \<Rightarrow> (Inl JSONDecodeError, tr @ [Http m path hs js])
                    | Body j \<Rightarrow> (Inr j, tr @ [Http m path hs js]))))"
  by (auto simp: fetch_def headers_run prog_defs session_request_def raise_for_status_def
      response_json_def local_var_def split: sum.splits outcome.splits body.splits)

lemma effects_append [simp]: "effects (xs @ ys) = effects xs @ effects ys"
  by (simp add: effects_def)

lemma effects_Nil [simp]: "effects [] = []"
  by (simp add: effects_def)

lemma effects_Cons [simp]: "effects (ev # tr) = effect_of ev @ effects tr"
  by (simp add: effects_def)

lemma fetch_effects: "effects (snd (fetch c w m path js tr)) = effects tr @ calls c m path"
  by (simp add: fetch_run headers_run calls_def split: outcome.splits body.splits)

lemma get_envelope_effects: "effects (snd (get_envelope path j tr)) = effects tr"
  by (simp add: get_envelope_def prog_defs split: sum.splits)

lemma post_envelope_effects: "effects (snd (post_envelope path j tr)) = effects tr"
  by (simp add: post_envelope_def prog_defs split: sum.splits)

lemma log_and_reraise_run: "log_and_reraise e tr = (Inl e, tr @ [Log ERROR (Exc e)])"
  by (simp add: log_and_reraise_def prog_defs)

lemma log_and_swallow_run:
  "log_and_swallow r e tr = (Inr JNull, tr @ [Log ERROR (ErrorWhenCalling e r)])"
  by (simp add: log_and_swallow_def prog_defs)

lemma api_get_run:
  "api_get c w path tr =
     (case fetch c w GET path (JObj []) tr of
        (Inl e, t) \<Rightarrow> (Inl e, t @ [Log ERROR (Exc e)])
      | (Inr j, t) \<Rightarrow>
          (case get_envelope path j t of
             (Inl e, t') \<Rightarrow> (Inl e, t' @ [Log ERROR (Exc e)])
           | (Inr v, t') \<Rightarrow> (Inr v, t')))"
  by (simp add: api_get_def seq_def try_except_def log_and_reraise_run split: prod.splits sum.splits)

lemma api_post_run:
  "api_post c w path js tr =
     (case fetch c w POST path js tr of
        (Inl e, t) \<Rightarrow> (Inl e, t @ [Log ERROR (Exc e)])
      | (Inr j, t) \<Rightarrow>
          (case post_envelope path j t of
             (Inl e, t') \<Rightarrow> (Inl e, t' @ [Log ERROR (Exc e)])
           | (Inr v, t') \<Rightarrow> (Inr v, t')))"
  by (simp add: api_post_def seq_def try_except_def log_and_reraise_run split: prod.splits sum.splits)

lemma api_get_effects: "effects (snd (api_get c w path tr)) = effects tr @ calls c GET path"
proof -
  obtain r t where f: "fetch c w GET path (JObj []) tr = (r, t)" by (cases "fetch c w GET path (JObj []) tr")
  then have ft: "effects t = effects tr @ calls c GET path"
    using fetch_effects [of c w GET path "JObj []" tr] by simp
  show ?thesis
  proof (cases r)
    case (Inl e)
    then show ?thesis using f ft by (simp add: api_get_run)
  next
    case (Inr j)
    obtain r' t' where g: "get_envelope path j t = (r', t')" by (cases "get_envelope path j t")
    then have "effects t' = effects t" using get_envelope_effects [of path j t] by simp
    then show ?thesis using Inr f ft g by (cases r') (simp_all add: api_get_run)
  qed
qed

text \<open>Every read operation wraps \<^verbatim>\<open>api_get\<close> in the same way, and so never raises.\<close>

lemma guarded_get:
  obtains v tr' where
    "try_except (seq (emit (Log DEBUG msg)) (\<lambda>_. api_get c w resource)) (log_and_swallow resource) tr
       = (Inr v, tr')"
    "effects tr' = effects tr @ calls c GET resource"
proof -
  let ?t0 = "tr @ [Log DEBUG msg]"
  obtain r t where a: "api_get c w resource ?t0 = (r, t)" by (cases "api_get c w resource ?t0")
  then have at: "effects t = effects tr @ calls c GET resource"
    using api_get_effects [of c w resource ?t0] by simp
  show ?thesis
  proof (cases r)
    case (Inl e)
    then have "try_except (seq (emit (Log DEBUG msg)) (\<lambda>_. api_get c w resource)) (log_and_swallow resource) tr
       = (Inr JNull, t @ [Log ERROR (ErrorWhenCalling e resource)])"
      using a by (simp add: try_except_def seq_def emit_def log_and_swallow_run)
    then show ?thesis using at that by simp
  next
    case (Inr v)
    then have "try_except (seq (emit (Log DEBUG msg)) (\<lambda>_. api_get c w resource)) (log_and_swallow resource) tr
       = (Inr v, t)"
      using a by (simp add: try_except_def seq_def emit_def)
    then show ?thesis using at that by simp
  qed
qed

section \<open>The read operations never raise\<close>

lemma getESSList_run:
  "\<exists>v tr'. getESSList c w tr = (Inr v, tr')
     \<and> effects tr' = effects tr @ calls c GET (BASEURL @ ''/getEssList'')"
  unfolding getESSList_def Let_def by (rule guarded_get) blast

lemma getSumDataForCustomer_run:
  "\<exists>v tr'. getSumDataForCustomer c w s tr = (Inr v, tr')
     \<and> effects tr' = effects tr
           @ calls c GET (BASEURL @ ''/getSumDataForCustomer?sysSn='' @ py_str (render w) s)"
  unfolding getSumDataForCustomer_def Let_def by (rule guarded_get) blast

lemma getLastPowerData_run:
  "\<exists>v tr'. getLastPowerData c w s tr = (Inr v, tr')
     \<and> effects tr' = effects tr
           @ calls c GET (BASEURL @ ''/getLastPowerData?sysSn='' @ py_str (render w) s)"
  unfolding getLastPowerData_def Let_def by (rule guarded_get) blast

lemma getChargeConfigInfo_run:
  "\<exists>v tr'. getChargeConfigInfo c w s tr = (Inr v, tr')
     \<and> effects tr' = effects tr
           @ calls c GET (BASEURL @ ''/getChargeConfigInfo?sysSn='' @ py_str (render w) s)"
  unfolding getChargeConfigInfo_def Let_def by (rule guarded_get) blast

lemma getDisChargeConfigInfo_run:
  "\<exists>v tr'. getDisChargeConfigInfo c w s tr = (Inr v, tr')
     \<and> effects tr' = effects tr
           @ calls c GET (BASEURL @ ''/getDisChargeConfigInfo?sysSn='' @ py_str (render w) s)"
  unfolding getDisChargeConfigInfo_def Let_def by (rule guarded_get) blast

lemma getOneDateEnergyBySn_unfold:
  "getOneDateEnergyBySn c w s q tr =
     try_except
       (seq (emit (Log DEBUG
                 (if q = JStr (local_date w tr)
                  then TryingToCall (BASEURL @ ''/getOneDateEnergyBySn?sysSn='' @ py_str (render w) s
                            @ ''&queryDate='' @ local_date w tr)
                  else TryingToCallAdjusted (BASEURL @ ''/getOneDateEnergyBySn?sysSn='' @ py_str (render w) s
                            @ ''&queryDate='' @ local_date w tr))))
          (\<lambda>_. api_get c w (BASEURL @ ''/getOneDateEnergyBySn?sysSn='' @ py_str (render w) s
                            @ ''&queryDate='' @ local_date w tr)))
       (log_and_swallow (BASEURL @ ''/getOneDateEnergyBySn?sysSn='' @ py_str (render w) s
                            @ ''&queryDate='' @ local_date w tr)) tr"
  by (simp add: getOneDateEnergyBySn_def seq_def observe_def Let_def py_str_def try_except_def)

lemma getOneDateEnergyBySn_run:
  "\<exists>v tr'. getOneDateEnergyBySn c w s q tr = (Inr v, tr')
     \<and> effects tr' = effects tr
           @ calls c GET (BASEURL @ ''/getOneDateEnergyBySn?sysSn='' @ py_str (render w) s
                            @ ''&queryDate='' @ local_date w tr)"
  unfolding getOneDateEnergyBySn_unfold by (rule guarded_get) blast

lemma getOneDayPowerBySn_unfold:
  "getOneDayPowerBySn c w s q tr =
     try_except
       (seq (emit (Log DEBUG
                 (if q = JStr (local_date w tr)
                  then TryingToCall (BASEURL @ ''/getOneDayPowerBySn?sysSn='' @ py_str (render w) s
                            @ ''&queryDate='' @ local_date w tr)
                  else TryingToCallAdjusted (BASEURL @ ''/getOneDayPowerBySn?sysSn='' @ py_str (render w) s
                            @ ''&queryDate='' @ local_date w tr))))
          (\<lambda>_. api_get c w (BASEURL @ ''/getOneDayPowerBySn?sysSn='' @ py_str (render w) s
                            @ ''&queryDate='' @ local_date w tr)))
       (log_and_swallow (BASEURL @ ''/getOneDayPowerBySn?sysSn='' @ py_str (render w) s
                            @ ''&queryDate='' @ local_date w tr)) tr"
  by (simp add: getOneDayPowerBySn_def seq_def observe_def Let_def py_str_def try_except_def)

lemma getOneDayPowerBySn_run:
  "\<exists>v tr'. getOneDayPowerBySn c w s q tr = (Inr v, tr')
     \<and> effects tr' = effects tr
           @ calls c GET (BASEURL @ ''/getOneDayPowerBySn?sysSn='' @ py_str (render w) s
                            @ ''&queryDate='' @ local_date w tr)"
  unfolding getOneDayPowerBySn_unfold by (rule guarded_get) blast

section \<open>One device, then the loop\<close>

lemma own_fields_update:
  "k \<in> F \<Longrightarrow> filter (\<lambda>kv. fst kv \<notin> F) (AList.update k v kvs) = filter (\<lambda>kv. fst kv \<notin> F) kvs"
  by (induction kvs) auto

lemma own_fields_setitem:
  "k \<in> set (sub_fields gp) \<Longrightarrow>
     own_fields gp (JObj (AList.update k v kvs)) = own_fields gp (JObj kvs)"
  unfolding own_fields_def json.case by (rule own_fields_update)

lemma keys_setitem: "fst ` set (AList.update k v kvs) = insert k (fst ` set kvs)"
  by (simp add: dom_update)

lemma enrich_run:
  assumes sn: "map_of kvs ''sysSn'' = Some s"
  shows "\<exists>u tr' ta tb.
           enrich c w gp dl (JObj kvs) tr = (Inr u, tr')
         \<and> enriched gp u (JObj kvs)
         \<and> effects tr' = effects tr
             @ calls c GET (BASEURL @ ''/getSumDataForCustomer?sysSn='' @ py_str (render w) s)
             @ [Delay dl]
             @ calls c GET (BASEURL @ ''/getOneDateEnergyBySn?sysSn='' @ py_str (render w) s
                              @ ''&queryDate='' @ local_date w ta)
             @ [Delay dl]
             @ calls c GET (BASEURL @ ''/getLastPowerData?sysSn='' @ py_str (render w) s)
             @ [Delay dl]
             @ calls c GET (BASEURL @ ''/getChargeConfigInfo?sysSn='' @ py_str (render w) s)
             @ [Delay dl]
             @ calls c GET (BASEURL @ ''/getDisChargeConfigInfo?sysSn='' @ py_str (render w) s)
             @ (if gp
                then [Delay dl]
                     @ calls c GET (BASEURL @ ''/getOneDayPowerBySn?sysSn='' @ py_str (render w) s
                                      @ ''&queryDate='' @ local_date w tb)
                else [])"
proof -
  obtain v1 t1 where r1: "getSumDataForCustomer c w s tr = (Inr v1, t1)"
    and e1: "effects t1 = effects tr
               @ calls c GET (BASEURL @ ''/getSumDataForCustomer?sysSn='' @ py_str (render w) s)"
    using getSumDataForCustomer_run by blast
  let ?t1 = "t1 @ [Sleep dl]"
  obtain v2 t2 where r2: "getOneDateEnergyBySn c w s (JStr (local_date w ?t1)) ?t1 = (Inr v2, t2)"
    and e2: "effects t2 = effects ?t1
               @ calls c GET (BASEURL @ ''/getOneDateEnergyBySn?sysSn='' @ py_str (render w) s
                                @ ''&queryDate='' @ local_date w ?t1)"
    using getOneDateEnergyBySn_run by blast
  let ?t2 = "t2 @ [Sleep dl]"
  obtain v3 t3 where r3: "getLastPowerData c w s ?t2 = (Inr v3, t3)"
    and e3: "effects t3 = effects ?t2
               @ calls c GET (BASEURL @ ''/getLastPowerData?sysSn='' @ py_str (render w) s)"
    using getLastPowerData_run by blast
  let ?t3 = "t3 @ [Sleep dl]"
  obtain v4 t4 where r4: "getChargeConfigInfo c w s ?t3 = (Inr v4, t4)"
    and e4: "effects t4 = effects ?t3
               @ calls c GET (BASEURL @ ''/getChargeConfigInfo?sysSn='' @ py_str (render w) s)"
    using getChargeConfigInfo_run by blast
  let ?t4 = "t4 @ [Sleep dl]"
  obtain v5 t5 where r5: "getDisChargeConfigInfo c w s ?t4 = (Inr v5, t5)"
    and e5: "effects t5 = effects ?t4
               @ calls c GET (BASEURL @ ''/getDisChargeConfigInfo?sysSn='' @ py_str (render w) s)"
    using getDisChargeConfigInfo_run by blast
  let ?t5 = "t5 @ [Sleep dl]"
  obtain v6 t6 where r6: "getOneDayPowerBySn c w s (JStr (local_date w ?t5)) ?t5 = (Inr v6, t6)"
    and e6: "effects t6 = effects ?t5
               @ calls c GET (BASEURL @ ''/getOneDayPowerBySn?sysSn='' @ py_str (render w) s
                                @ ''&queryDate='' @ local_date w ?t5)"
    using getOneDayPowerBySn_run by blast
  let ?k5 = "AList.update ''DisChargeConfig'' v5 (AList.update ''ChargeConfig'' v4
              (AList.update ''LastPower'' v3 (AList.update ''OneDateEnergy'' v2
                (AList.update ''SumData'' v1 kvs))))"
  show ?thesis
  proof (cases gp)
    case False
    have "enrich c w gp dl (JObj kvs) tr = (Inr (JObj ?k5), t5)"
      using sn r1 r2 r3 r4 r5 False
      by (simp add: enrich_def prog_defs py_getitem_def py_setitem_def)
    moreover have "enriched gp (JObj ?k5) (JObj kvs)"
      using False
      by (simp add: enriched_def has_fields_def sub_fields_def keys_setitem own_fields_setitem)
    moreover have "effects t5 = effects tr
             @ calls c GET (BASEURL @ ''/getSumDataForCustomer?sysSn='' @ py_str (render w) s)
             @ [Delay dl]
             @ calls c GET (BASEURL @ ''/getOneDateEnergyBySn?sysSn='' @ py_str (render w) s
                              @ ''&queryDate='' @ local_date w ?t1)
             @ [Delay dl]
             @ calls c GET (BASEURL @ ''/getLastPowerData?sysSn='' @ py_str (render w) s)
             @ [Delay dl]
             @ calls c GET (BASEURL @ ''/getChargeConfigInfo?sysSn='' @ py_str (render w) s)
             @ [Delay dl]
             @ calls c GET (BASEURL @ ''/getDisChargeConfigInfo?sysSn='' @ py_str (render w) s)"
      by (simp only: e5 e4 e3 e2 e1 effects_append effects_Cons effects_Nil effect_of.simps
          append_assoc append_Nil append_Nil2 append_Cons)
    ultimately show ?thesis using False by (intro exI [of _ "JObj ?k5"] exI [of _ t5] exI [of _ ?t1]) simp
  next
    case True
    let ?k6 = "AList.update ''OneDayPower'' v6 ?k5"
    have "enrich c w gp dl (JObj kvs) tr = (Inr (JObj ?k6), t6)"
      using sn r1 r2 r3 r4 r5 r6 True
      by (simp add: enrich_def prog_defs py_getitem_def py_setitem_def)
    moreover have "enriched gp (JObj ?k6) (JObj kvs)"
      using True
      by (simp add: enriched_def has_fields_def sub_fields_def keys_setitem own_fields_setitem)
    moreover have "effects t6 = effects tr
             @ calls c GET (BASEURL @ ''/getSumDataForCustomer?sysSn='' @ py_str (render w) s)
             @ [Delay dl]
             @ calls c GET (BASEURL @ ''/getOneDateEnergyBySn?sysSn='' @ py_str (render w) s
                              @ ''&queryDate='' @ local_date w ?t1)
             @ [Delay dl]
             @ calls c GET (BASEURL @ ''/getLastPowerData?sysSn='' @ py_str (render w) s)
             @ [Delay dl]
             @ calls c GET (BASEURL @ ''/getChargeConfigInfo?sysSn='' @ py_str (render w) s)
             @ [Delay dl]
             @ calls c GET (BASEURL @ ''/getDisChargeConfigInfo?sysSn='' @ py_str (render w) s)
             @ [Delay dl]
             @ calls c GET (BASEURL @ ''/getOneDayPowerBySn?sysSn='' @ py_str (render w) s
                                      @ ''&queryDate='' @ local_date w ?t5)"
      by (simp only: e6 e5 e4 e3 e2 e1 effects_append effects_Cons effects_Nil effect_of.simps
          append_assoc append_Nil append_Nil2 append_Cons)
    ultimately show ?thesis using True
      by (intro exI [of _ "JObj ?k6"] exI [of _ t6] exI [of _ ?t1] exI [of _ ?t5]) simp
  qed
qed


lemma py_in_device: "py_in k (JObj kvs) = Inr (k \<in> fst ` set kvs)"
  by (simp add: py_in_def)

lemma has_sn_device: "has_sn (JObj kvs) = (''sysSn'' \<in> fst ` set kvs)"
  by (simp add: has_sn_def py_in_def)

lemma serial_of_device: "map_of kvs ''sysSn'' = Some s \<Longrightarrow> serial_of (JObj kvs) = s"
  by (simp add: serial_of_def py_getitem_def)

lemma getdata_loop_run:
  assumes "list_all is_device us"
  shows "\<exists>recs tr' days.
           getdata_loop c w gp dl us acc tr = (Inr (acc @ recs), tr')
         \<and> list_all2 (enriched gp) recs (filter has_sn us)
         \<and> length days = length (filter has_sn us)
         \<and> list_all (\<lambda>d. fst d \<in> range (local_date w) \<and> snd d \<in> range (local_date w)) days
         \<and> effects tr' = effects tr
              @ concat (map2 (\<lambda>u d. device_calls c w gp dl (fst d) (snd d) (serial_of u))
                          (filter has_sn us) days)"
  using assms
proof (induction us arbitrary: acc tr)
  case Nil
  then show ?case by (simp add: ret_def)
next
  case (Cons u us)
  then obtain kvs where u: "u = JObj kvs" by (cases u) (simp_all add: is_device_def)
  from Cons.prems have rest: "list_all is_device us" by simp
  show ?case
  proof (cases "''sysSn'' \<in> fst ` set kvs")
    case False
    then have step: "getdata_loop c w gp dl (u # us) acc tr = getdata_loop c w gp dl us acc tr"
      by (simp add: u py_in_device seq_def lift_def)
    from False have "filter has_sn (u # us) = filter has_sn us"
      by (simp add: u has_sn_device)
    with Cons.IH [OF rest, of acc tr] step show ?thesis by simp
  next
    case True
    then obtain s where s: "map_of kvs ''sysSn'' = Some s"
      by (metis domD dom_map_of_conv_image_fst)
    from enrich_run [OF s, of c w gp dl tr]
    obtain u1 t1 ta tb where
      en: "enrich c w gp dl (JObj kvs) tr = (Inr u1, t1)" and
      ok: "enriched gp u1 (JObj kvs)" and
      ef: "effects t1 = effects tr
             @ calls c GET (BASEURL @ ''/getSumDataForCustomer?sysSn='' @ py_str (render w) s)
             @ [Delay dl]
             @ calls c GET (BASEURL @ ''/getOneDateEnergyBySn?sysSn='' @ py_str (render w) s
                              @ ''&queryDate='' @ local_date w ta)
             @ [Delay dl]
             @ calls c GET (BASEURL @ ''/getLastPowerData?sysSn='' @ py_str (render w) s)
             @ [Delay dl]
             @ calls c GET (BASEURL @ ''/getChargeConfigInfo?sysSn='' @ py_str (render w) s)
             @ [Delay dl]
             @ calls c GET (BASEURL @ ''/getDisChargeConfigInfo?sysSn='' @ py_str (render w) s)
             @ (if gp
                then [Delay dl]
                     @ calls c GET (BASEURL @ ''/getOneDayPowerBySn?sysSn='' @ py_str (render w) s
                                      @ ''&queryDate='' @ local_date w tb)
                else [])"
      by blast
    let ?t = "t1 @ [Log DEBUG (AllData (acc @ [u1]))]"
    let ?d = "(local_date w ta, local_date w tb)"
    from Cons.IH [OF rest, of "acc @ [u1]" ?t]
    obtain recs tr' days where
      lp: "getdata_loop c w gp dl us (acc @ [u1]) ?t = (Inr ((acc @ [u1]) @ recs), tr')" and
      en': "list_all2 (enriched gp) recs (filter has_sn us)" and
      ln: "length days = length (filter has_sn us)" and
      dy: "list_all (\<lambda>d. fst d \<in> range (local_date w) \<and> snd d \<in> range (local_date w)) days" and
      ef': "effects tr' = effects ?t
              @ concat (map2 (\<lambda>u d. device_calls c w gp dl (fst d) (snd d) (serial_of u))
                          (filter has_sn us) days)"
      by blast
    have step: "getdata_loop c w gp dl (u # us) acc tr = (Inr (acc @ (u1 # recs)), tr')"
      using True en lp by (simp add: u py_in_device seq_def lift_def emit_def)
    have flt: "filter has_sn (u # us) = u # filter has_sn us"
      using True by (simp add: u has_sn_device)
    have a: "list_all2 (enriched gp) (u1 # recs) (filter has_sn (u # us))"
      unfolding flt using ok en' by (simp add: u)
    have b: "length (?d # days) = length (filter has_sn (u # us))"
      unfolding flt using ln by simp
    have c: "list_all (\<lambda>d. fst d \<in> range (local_date w) \<and> snd d \<in> range (local_date w)) (?d # days)"
      using dy by simp
    have one: "effects t1 = effects tr @ device_calls c w gp dl (local_date w ta) (local_date w tb) s"
      unfolding ef device_calls_def by simp
    have d: "effects tr' = effects tr
              @ concat (map2 (\<lambda>u d. device_calls c w gp dl (fst d) (snd d) (serial_of u))
                          (filter has_sn (u # us)) (?d # days))"
      unfolding flt using ef' one by (simp add: u serial_of_device [OF s])
    from step a b c d show ?thesis by blast
  qed
qed

lemma getdata_run:
  assumes l: "fst (getESSList c w tr) = Inr (JArr units)" and d: "list_all is_device units"
  shows "\<exists>recs tr' days.
           getdata c w gp dl tr = (Inr recs, tr')
         \<and> list_all2 (enriched gp) recs (filter has_sn units)
         \<and> length days = length (filter has_sn units)
         \<and> list_all (\<lambda>d. fst d \<in> range (local_date w) \<and> snd d \<in> range (local_date w)) days
         \<and> effects tr' = effects tr @ calls c GET (BASEURL @ ''/getEssList'')
              @ concat (map2 (\<lambda>u d. device_calls c w gp dl (fst d) (snd d) (serial_of u))
                          (filter has_sn units) days)"
proof -
  obtain v t0 where g: "getESSList c w tr = (Inr v, t0)"
    and e0: "effects t0 = effects tr @ calls c GET (BASEURL @ ''/getEssList'')"
    using getESSList_run by blast
  with l have v: "v = JArr units" by simp
  from getdata_loop_run [OF d, of c w gp dl "[]" t0]
  obtain recs tr' days where
    lp: "getdata_loop c w gp dl units [] t0 = (Inr recs, tr')" and
    en: "list_all2 (enriched gp) recs (filter has_sn units)" and
    ln: "length days = length (filter has_sn units)" and
    dy: "list_all (\<lambda>d. fst d \<in> range (local_date w) \<and> snd d \<in> range (local_date w)) days" and
    ef: "effects tr' = effects t0
              @ concat (map2 (\<lambda>u d. device_calls c w gp dl (fst d) (snd d) (serial_of u))
                          (filter has_sn units) days)"
    by auto
  have "getdata c w gp dl tr = (Inr recs, tr')"
    using g v lp by (simp add: getdata_def try_except_def seq_def lift_def py_iter_def)
  moreover have "effects tr' = effects tr @ calls c GET (BASEURL @ ''/getEssList'')
              @ concat (map2 (\<lambda>u d. device_calls c w gp dl (fst d) (snd d) (serial_of u))
                          (filter has_sn units) days)"
    using ef e0 by simp
  ultimately show ?thesis using en ln dy by blast
qed

lemma map_of_outside:
  "k \<notin> F \<Longrightarrow> map_of (filter (\<lambda>kv. fst kv \<notin> F) kvs) k = map_of kvs k"
  by (induction kvs) auto

lemma enriched_serial: "enriched gp r u \<Longrightarrow> is_device u \<Longrightarrow> serial_of r = serial_of u"
proof -
  assume en: "enriched gp r u" and dv: "is_device u"
  from en obtain kr where r: "r = JObj kr" by (cases r) (simp_all add: enriched_def has_fields_def)
  from dv obtain ku where u: "u = JObj ku" by (cases u) (simp_all add: is_device_def)
  have notin: "''sysSn'' \<notin> set (sub_fields gp)" by (simp add: sub_fields_def)
  from en have "filter (\<lambda>kv. fst kv \<notin> set (sub_fields gp)) kr
              = filter (\<lambda>kv. fst kv \<notin> set (sub_fields gp)) ku"
    by (simp add: enriched_def own_fields_def r u)
  then have "map_of kr ''sysSn'' = map_of ku ''sysSn''"
    using map_of_outside [OF notin, of kr] map_of_outside [OF notin, of ku] by simp
  then show ?thesis by (simp add: serial_of_def py_getitem_def r u)
qed

lemma enriched_serials:
  "list_all2 (enriched gp) recs us \<Longrightarrow> list_all is_device us \<Longrightarrow> map serial_of recs = map serial_of us"
  by (induction recs us rule: list_all2_induct) (simp_all add: enriched_serial)

lemma getdata_loop_skip:
  "getdata_loop c w gp dl us acc tr
     = getdata_loop c w gp dl (filter (\<lambda>u. \<not> lacks_sn u) us) acc tr"
proof (induction us arbitrary: acc tr)
  case Nil
  then show ?case by simp
next
  case (Cons u us)
  show ?case
  proof (cases "lacks_sn u")
    case True
    then show ?thesis using Cons.IH by (simp add: lacks_sn_def seq_def lift_def)
  next
    case False
    show ?thesis
    proof (cases "py_in ''sysSn'' u")
      case (Inl e)
      then show ?thesis using False by (simp add: seq_def lift_def)
    next
      case (Inr b)
      with False have b by (simp add: lacks_sn_def)
      then show ?thesis using False Inr Cons.IH
        by (simp add: seq_def lift_def emit_def split: prod.splits sum.splits)
    qed
  qed
qed

section \<open>Failures of the list call\<close>

lemma authenticate_loop_devices:
  "list_all is_device us \<Longrightarrow> authenticate_loop us b = Inr (b \<or> list_ex has_sn us)"
proof (induction us arbitrary: b)
  case Nil
  then show ?case by simp
next
  case (Cons u us)
  then obtain kvs where u: "u = JObj kvs" by (cases u) (simp_all add: is_device_def)
  from Cons show ?case by (auto simp: u py_in_device has_sn_device)
qed

lemma fetch_fails:
  assumes "\<And>t hs j. http w t m p hs js \<noteq> Response 200 (Body j)"
  shows "\<exists>e t. fetch c w m p js tr = (Inl e, t)"
  using assms by (auto simp: fetch_run headers_run split: outcome.splits body.splits)

lemma api_get_fails:
  assumes "\<And>t hs j. http w t GET p hs (JObj []) \<noteq> Response 200 (Body j)"
  shows "\<exists>e t. api_get c w p tr = (Inl e, t)"
proof -
  from fetch_fails [of w GET p "JObj []" c tr] assms
  obtain e t where "fetch c w GET p (JObj []) tr = (Inl e, t)" by blast
  then show ?thesis by (simp add: api_get_run)
qed

lemma api_post_fails:
  assumes "\<And>t hs j. http w t POST p hs js \<noteq> Response 200 (Body j)"
  shows "\<exists>e t. api_post c w p js tr = (Inl e, t)"
proof -
  from fetch_fails [of w POST p js c tr] assms
  obtain e t where "fetch c w POST p js tr = (Inl e, t)" by blast
  then show ?thesis by (simp add: api_post_run)
qed

lemma getESSList_fails:
  assumes "\<And>t hs j. http w t GET (BASEURL @ ''/getEssList'') hs (JObj []) \<noteq> Response 200 (Body j)"
  shows "fst (getESSList c w tr) = Inr JNull"
proof -
  from api_get_fails [of w "BASEURL @ ''/getEssList''" c "tr @ [Log DEBUG (TryingToCall (BASEURL @ ''/getEssList''))]"] assms
  obtain e t where "api_get c w (BASEURL @ ''/getEssList'') (tr @ [Log DEBUG (TryingToCall (BASEURL @ ''/getEssList''))]) = (Inl e, t)"
    by blast
  then show ?thesis
    by (simp add: getESSList_def Let_def try_except_def seq_def emit_def log_and_swallow_run)
qed

lemma authenticate_absent:
  assumes "fst (getESSList c w tr) = Inr JNull"
  shows "fst (authenticate c w tr) = Inl TypeError"
proof -
  obtain t0 where "getESSList c w tr = (Inr JNull, t0)"
    using assms by (cases "getESSList c w tr") simp
  then show ?thesis
    by (simp add: authenticate_def try_except_def seq_def lift_def py_iter_def log_and_reraise_run)
qed

lemma getdata_absent:
  assumes "fst (getESSList c w tr) = Inr JNull"
  shows "getdata c w gp dl tr = (Inl TypeError, snd (getESSList c w tr) @ [Log ERROR (Exc TypeError)])"
proof -
  obtain t0 where "getESSList c w tr = (Inr JNull, t0)"
    using assms by (cases "getESSList c w tr") simp
  then show ?thesis
    by (simp add: getdata_def try_except_def seq_def lift_def py_iter_def log_and_reraise_run)
qed

lemma guarded_get_fails:
  assumes "\<And>t hs j. http w t GET p hs (JObj []) \<noteq> Response 200 (Body j)"
  shows "fst (try_except (seq (emit (Log DEBUG msg)) (\<lambda>_. api_get c w p)) (log_and_swallow p) tr)
           = Inr JNull"
proof -
  from api_get_fails [of w p c "tr @ [Log DEBUG msg]"] assms
  obtain e t where "api_get c w p (tr @ [Log DEBUG msg]) = (Inl e, t)" by blast
  then show ?thesis
    by (simp add: try_except_def seq_def emit_def log_and_swallow_run)
qed

lemma guarded_post_fails:
  assumes "\<And>t hs j. http w t POST p hs js \<noteq> Response 200 (Body j)"
  shows "fst (try_except (seq (emit (Log DEBUG msg)) (\<lambda>_. api_post c w p js)) (log_and_swallow p) tr)
           = Inr JNull"
proof -
  from api_post_fails [of w p js c "tr @ [Log DEBUG msg]"] assms
  obtain e t where "api_post c w p js (tr @ [Log DEBUG msg]) = (Inl e, t)" by blast
  then show ?thesis
    by (simp add: try_except_def seq_def emit_def log_and_swallow_run)
qed

lemma api_get_fails_logged:
  assumes "\<And>t hs j. http w t GET p hs (JObj []) \<noteq> Response 200 (Body j)"
  shows "\<exists>e. fst (api_get c w p tr) = Inl e
            \<and> (\<exists>t. snd (api_get c w p tr) = t @ [Log ERROR (Exc e)])"
proof -
  from fetch_fails [of w GET p "JObj []" c tr] assms
  obtain e t where "fetch c w GET p (JObj []) tr = (Inl e, t)" by blast
  then have "api_get c w p tr = (Inl e, t @ [Log ERROR (Exc e)])"
    by (simp add: api_get_run)
  then show ?thesis by simp
qed

lemma api_post_fails_logged:
  assumes "\<And>t hs j. http w t POST p hs js \<noteq> Response 200 (Body j)"
  shows "\<exists>e. fst (api_post c w p js tr) = Inl e
            \<and> (\<exists>t. snd (api_post c w p js tr) = t @ [Log ERROR (Exc e)])"
proof -
  from fetch_fails [of w POST p js c tr] assms
  obtain e t where "fetch c w POST p js tr = (Inl e, t)" by blast
  then have "api_post c w p js tr = (Inl e, t @ [Log ERROR (Exc e)])"
    by (simp add: api_post_run)
  then show ?thesis by simp
qed

lemma guarded_get_swallows:
  assumes "\<And>t hs j. http w t GET p hs (JObj []) \<noteq> Response 200 (Body j)"
  shows "fst (try_except (seq (emit (Log DEBUG msg)) (\<lambda>_. api_get c w p)) (log_and_swallow p) tr)
           = Inr JNull
       \<and> (\<exists>e t. snd (try_except (seq (emit (Log DEBUG msg)) (\<lambda>_. api_get c w p))
                        (log_and_swallow p) tr)
                  = t @ [Log ERROR (ErrorWhenCalling e p)])"
proof -
  from api_get_fails [of w p c "tr @ [Log DEBUG msg]"] assms
  obtain e t where "api_get c w p (tr @ [Log DEBUG msg]) = (Inl e, t)" by blast
  then have "try_except (seq (emit (Log DEBUG msg)) (\<lambda>_. api_get c w p)) (log_and_swallow p) tr
               = (Inr JNull, t @ [Log ERROR (ErrorWhenCalling e p)])"
    by (simp add: try_except_def seq_def emit_def log_and_swallow_run)
  then show ?thesis by simp
qed

lemma guarded_post_swallows:
  assumes "\<And>t hs j. http w t POST p hs js \<noteq> Response 200 (Body j)"
  shows "fst (try_except (seq (emit (Log DEBUG msg)) (\<lambda>_. api_post c w p js)) (log_and_swallow p) tr)
           = Inr JNull
       \<and> (\<exists>e t. snd (try_except (seq (emit (Log DEBUG msg)) (\<lambda>_. api_post c w p js))
                        (log_and_swallow p) tr)
                  = t @ [Log ERROR (ErrorWhenCalling e p)])"
proof -
  from api_post_fails [of w p js c "tr @ [Log DEBUG msg]"] assms
  obtain e t where "api_post c w p js (tr @ [Log DEBUG msg]) = (Inl e, t)" by blast
  then have "try_except (seq (emit (Log DEBUG msg)) (\<lambda>_. api_post c w p js)) (log_and_swallow p) tr
               = (Inr JNull, t @ [Log ERROR (ErrorWhenCalling e p)])"
    by (simp add: try_except_def seq_def emit_def log_and_swallow_run)
  then show ?thesis by simp
qed

section \<open>The envelope tests on a dict\<close>

lemma msg_key: "(k \<in> fst ` set kvs) = (map_of kvs k \<noteq> None)"
  by (simp add: map_of_eq_None_iff)

lemma get_envelope_result:
  "fst (get_envelope path (JObj kvs) tr) =
     (case map_of kvs ''msg'' of
        None \<Rightarrow> Inr JNull
      | Some m \<Rightarrow>
          if m \<noteq> JStr ''Success'' then Inr JNull
          else (case map_of kvs ''data'' of None \<Rightarrow> Inl (KeyError ''data'') | Some d \<Rightarrow> Inr d))"
  by (auto simp: get_envelope_def prog_defs py_in_def py_getitem_def msg_key split: option.splits)

lemma post_envelope_result:
  "fst (post_envelope path (JObj kvs) tr) =
     (case map_of kvs ''msg'' of
        None \<Rightarrow> Inr JNull
      | Some m \<Rightarrow>
          if m \<noteq> JStr ''Success'' then Inr JNull
          else (case map_of kvs ''data'' of None \<Rightarrow> Inl (KeyError ''data'') | Some d \<Rightarrow> Inr d))"
  by (auto simp: post_envelope_def prog_defs py_in_def py_getitem_def msg_key split: option.splits)

lemma post_envelope_logs:
  "filter is_log (snd (post_envelope path (JObj kvs) tr)) =
     filter is_log tr @
     (case map_of kvs ''msg'' of
        None \<Rightarrow> []
      | Some m \<Rightarrow>
          if m \<noteq> JStr ''Success'' then []
          else (case map_of kvs ''data'' of
                  None \<Rightarrow> []
                | Some d \<Rightarrow> if d = JNull then [] else [Log ERROR (UnexpectedJson (JObj kvs) path)]))"
  by (auto simp: post_envelope_def prog_defs py_in_def py_getitem_def msg_key is_log_def
      split: option.splits)

section \<open>Decimal strings and digests\<close>

lemma digit_val_char: "d < 10 \<Longrightarrow> digit_val (digit_char d) = d"
proof -
  assume "d < 10"
  then have "d \<in> {0,1,2,3,4,5,6,7,8,9}" by auto
  then show ?thesis by (auto simp: digit_char_def digit_val_def)
qed

lemma digit_char_not_minus: "d < 10 \<Longrightarrow> digit_char d \<noteq> CHR ''-''"
proof -
  assume "d < 10"
  then have "d \<in> {0,1,2,3,4,5,6,7,8,9}" by auto
  then show ?thesis by (auto simp: digit_char_def)
qed

lemma val_str_nat: "val_str (str_nat n) = n"
proof (induction n rule: str_nat.induct)
  case (1 n)
  show ?case
  proof (cases "n < 10")
    case True
    then show ?thesis by (subst str_nat.simps) (simp add: val_str_def digit_val_char)
  next
    case False
    then have ih: "val_str (str_nat (n div 10)) = n div 10" using 1 by simp
    have "val_str (str_nat n) = 10 * val_str (str_nat (n div 10)) + digit_val (digit_char (n mod 10))"
      using False by (subst str_nat.simps) (simp add: val_str_def)
    then show ?thesis by (simp add: ih digit_val_char)
  qed
qed

lemma str_nat_inj: "str_nat m = str_nat n \<Longrightarrow> m = n"
  by (metis val_str_nat)

lemma str_nat_hd: "\<exists>d cs. d < 10 \<and> str_nat n = digit_char d # cs"
proof (induction n rule: str_nat.induct)
  case (1 n)
  show ?case
  proof (cases "n < 10")
    case True
    then show ?thesis by (subst str_nat.simps) auto
  next
    case False
    with 1 obtain d cs where "d < 10" "str_nat (n div 10) = digit_char d # cs" by blast
    then show ?thesis using False by (subst str_nat.simps) auto
  qed
qed

lemma str_nat_not_minus: "str_nat n \<noteq> CHR ''-'' # cs"
proof
  assume eq: "str_nat n = CHR ''-'' # cs"
  obtain d cs' where d: "d < 10" and "str_nat n = digit_char d # cs'"
    using str_nat_hd by blast
  with eq have "digit_char d = CHR ''-''" by simp
  with digit_char_not_minus [OF d] show False by simp
qed

lemma str_int_inj: "str_int i = str_int j \<Longrightarrow> i = j"
proof -
  assume eq: "str_int i = str_int j"
  consider "i < 0" "j < 0" | "i < 0" "0 \<le> j" | "0 \<le> i" "j < 0" | "0 \<le> i" "0 \<le> j"
    by linarith
  then show ?thesis
  proof cases
    case 1
    with eq have "nat (- i) = nat (- j)" by (simp add: str_int_def str_nat_inj)
    with 1 show ?thesis by simp
  next
    case 2
    with eq have "str_nat (nat j) = CHR ''-'' # str_nat (nat (- i))" by (simp add: str_int_def)
    then show ?thesis using str_nat_not_minus by blast
  next
    case 3
    with eq have "str_nat (nat i) = CHR ''-'' # str_nat (nat (- j))" by (simp add: str_int_def)
    then show ?thesis using str_nat_not_minus by blast
  next
    case 4
    with eq have "nat i = nat j" by (simp add: str_int_def str_nat_inj)
    with 4 show ?thesis by simp
  qed
qed

lemma hexdigest_length: "length (hexdigest h) = 128"
  by (simp add: hexdigest_def hex64_def split: prod.splits)

section \<open>Runs in the concrete worlds\<close>

lemmas run_defs =
  getdata_def getESSList_def getSumDataForCustomer_def getOneDateEnergyBySn_def
  getLastPowerData_def getChargeConfigInfo_def getDisChargeConfigInfo_def getOneDayPowerBySn_def
  enrich_def api_get_run fetch_run headers_run get_envelope_def log_and_swallow_run
  log_and_reraise_run prog_defs py_in_def py_getitem_def py_setitem_def py_iter_def py_str_def
  ascii_def BASEURL_def Let_def

lemmas world_defs = world_of_def client0_def envelope_def

lemma two_listed:
  "fst (getESSList client0 (world_of srv_two) [])
     = Inr (JArr [JObj [(''sysSn'', JStr ''X1'')], JObj [(''sysSn'', JStr ''X2'')]])"
  by (simp add: run_defs world_defs srv_two_def)

section \<open>The claims\<close>

text \<open>
  C1. For a GET answered with status 200 and a parsed envelope: \<^verbatim>\<open>api_get\<close> returns
  \<^verbatim>\<open>None\<close> when \<^verbatim>\<open>msg\<close> is missing or is not \<^verbatim>\<open>"Success"\<close> and when
  \<^verbatim>\<open>data\<close> is null, and the payload otherwise (lemma \<open>get_envelope_result\<close>). The
  claim also promises \<^verbatim>\<open>None\<close> when the \<^verbatim>\<open>data\<close> key is missing. There the code
  departs from it: on the body \<^verbatim>\<open>{"msg": "Success"}\<close> the subscript
  \<^verbatim>\<open>json_response["data"]\<close> raises \<^verbatim>\<open>KeyError\<close>, which \<^verbatim>\<open>api_get\<close> logs and
  re-raises.
\<close>

theorem api_get_missing_data_raises:
  "fst (api_get client0 (world_of srv_no_data) (BASEURL @ ''/getEssList'') [])
     = Inl (KeyError ''data'')"
  by (simp add: api_get_run fetch_run headers_run client0_def world_of_def srv_no_data_def
      get_envelope_def prog_defs py_in_def py_getitem_def ascii_def)

text \<open>
  C2. The claim says that no operation turns a transport failure into a silent absent
  result, and that \<^verbatim>\<open>getdata\<close> raises the transport error of its list call. With the
  connection down, \<^verbatim>\<open>getLastPowerData\<close> returns \<^verbatim>\<open>None\<close>, and \<^verbatim>\<open>getdata\<close>
  raises \<^verbatim>\<open>TypeError\<close> where \<^verbatim>\<open>api_get\<close> had raised the connection error.
\<close>

theorem transport_failure_swallowed_counterexample:
  "fst (getLastPowerData client0 (world_of srv_down) (JStr ''X1'') []) = Inr JNull
   \<and> fst (api_get client0 (world_of srv_down) (BASEURL @ ''/getEssList'') []) = Inl ClientConnectionError
   \<and> fst (getdata client0 (world_of srv_down) False 0 []) = Inl TypeError"
  by (simp add: run_defs world_defs srv_down_def)

text \<open>
  C2, as the code has it. When a path never yields a parsed 200 response, \<^verbatim>\<open>api_get\<close>
  and \<^verbatim>\<open>api_post\<close> log the error and raise it, and every endpoint operation whose
  resource is that path catches the error, logs it and returns \<^verbatim>\<open>None\<close>. When the
  path is the device list, \<^verbatim>\<open>getdata\<close> then raises \<^verbatim>\<open>TypeError\<close> from iterating
  \<^verbatim>\<open>None\<close>, logs it, produces no device record, and has sent nothing but the list
  request.
\<close>

theorem transport_failure_policy:
  assumes "\<forall>t m hs js j. http w t m p hs js \<noteq> Response 200 (Body j)"
  shows "(\<exists>e. fst (api_get c w p tr) = Inl e
             \<and> (\<exists>t. snd (api_get c w p tr) = t @ [Log ERROR (Exc e)]))
       \<and> (\<exists>e. fst (api_post c w p js tr) = Inl e
             \<and> (\<exists>t. snd (api_post c w p js tr) = t @ [Log ERROR (Exc e)]))
       \<and> (p = BASEURL @ ''/getEssList'' \<longrightarrow>
            fst (getESSList c w tr) = Inr JNull
          \<and> (\<exists>e t. snd (getESSList c w tr) = t @ [Log ERROR (ErrorWhenCalling e p)])
          \<and> fst (getdata c w gp dl tr) = Inl TypeError
          \<and> snd (getdata c w gp dl tr) = snd (getESSList c w tr) @ [Log ERROR (Exc TypeError)]
          \<and> effects (snd (getdata c w gp dl tr)) = effects tr @ calls c GET p)
       \<and> (p = BASEURL @ ''/getLastPowerData?sysSn='' @ py_str (render w) sn \<longrightarrow>
            fst (getLastPowerData c w sn tr) = Inr JNull
          \<and> (\<exists>e t. snd (getLastPowerData c w sn tr) = t @ [Log ERROR (ErrorWhenCalling e p)]))
       \<and> (p = BASEURL @ ''/getSumDataForCustomer?sysSn='' @ py_str (render w) sn \<longrightarrow>
            fst (getSumDataForCustomer c w sn tr) = Inr JNull
          \<and> (\<exists>e t. snd (getSumDataForCustomer c w sn tr) = t @ [Log ERROR (ErrorWhenCalling e p)]))
       \<and> (p = BASEURL @ ''/getChargeConfigInfo?sysSn='' @ py_str (render w) sn \<longrightarrow>
            fst (getChargeConfigInfo c w sn tr) = Inr JNull
          \<and> (\<exists>e t. snd (getChargeConfigInfo c w sn tr) = t @ [Log ERROR (ErrorWhenCalling e p)]))
       \<and> (p = BASEURL @ ''/getDisChargeConfigInfo?sysSn='' @ py_str (render w) sn \<longrightarrow>
            fst (getDisChargeConfigInfo c w sn tr) = Inr JNull
          \<and> (\<exists>e t. snd (getDisChargeConfigInfo c w sn tr) = t @ [Log ERROR (ErrorWhenCalling e p)]))
       \<and> (p = BASEURL @ ''/getOneDateEnergyBySn?sysSn='' @ py_str (render w) sn
                 @ ''&queryDate='' @ local_date w tr \<longrightarrow>
            fst (getOneDateEnergyBySn c w sn q tr) = Inr JNull
          \<and> (\<exists>e t. snd (getOneDateEnergyBySn c w sn q tr) = t @ [Log ERROR (ErrorWhenCalling e p)]))
       \<and> (p = BASEURL @ ''/getOneDayPowerBySn?sysSn='' @ py_str (render w) sn
                 @ ''&queryDate='' @ local_date w tr \<longrightarrow>
            fst (getOneDayPowerBySn c w sn q tr) = Inr JNull
          \<and> (\<exists>e t. snd (getOneDayPowerBySn c w sn q tr) = t @ [Log ERROR (ErrorWhenCalling e p)]))
       \<and> (p = BASEURL @ ''/updateChargeConfigInfo'' \<longrightarrow>
            fst (updateChargeConfigInfo c w sn a1 a2 a3 a4 a5 a6 tr) = Inr JNull
          \<and> (\<exists>e t. snd (updateChargeConfigInfo c w sn a1 a2 a3 a4 a5 a6 tr) = t @ [Log ERROR (ErrorWhenCalling e p)]))
       \<and> (p = BASEURL @ ''/updateDisChargeConfigInfo'' \<longrightarrow>
            fst (updateDisChargeConfigInfo c w sn a1 a2 a3 a4 a5 a6 tr) = Inr JNull
          \<and> (\<exists>e t. snd (updateDisChargeConfigInfo c w sn a1 a2 a3 a4 a5 a6 tr) = t @ [Log ERROR (ErrorWhenCalling e p)]))"
proof -
  have g: "\<And>t hs j. http w t GET p hs (JObj []) \<noteq> Response 200 (Body j)"
    using assms by blast
  have po: "\<And>t hs j js. http w t POST p hs js \<noteq> Response 200 (Body j)"
    using assms by blast
  have 1: "\<exists>e. fst (api_get c w p tr) = Inl e
             \<and> (\<exists>t. snd (api_get c w p tr) = t @ [Log ERROR (Exc e)])"
    using g by (rule api_get_fails_logged)
  have 2: "\<exists>e. fst (api_post c w p js tr) = Inl e
             \<and> (\<exists>t. snd (api_post c w p js tr) = t @ [Log ERROR (Exc e)])"
    using po by (rule api_post_fails_logged)
  have 3: "fst (getESSList c w tr) = Inr JNull
          \<and> (\<exists>e t. snd (getESSList c w tr) = t @ [Log ERROR (ErrorWhenCalling e p)])
          \<and> fst (getdata c w gp dl tr) = Inl TypeError
          \<and> snd (getdata c w gp dl tr) = snd (getESSList c w tr) @ [Log ERROR (Exc TypeError)]
          \<and> effects (snd (getdata c w gp dl tr)) = effects tr @ calls c GET p"
    if p: "p = BASEURL @ ''/getEssList''"
  proof -
    have sw: "fst (getESSList c w tr) = Inr JNull
          \<and> (\<exists>e t. snd (getESSList c w tr) = t @ [Log ERROR (ErrorWhenCalling e p)])"
      using g unfolding p getESSList_def Let_def by (rule guarded_get_swallows)
    then have l: "fst (getESSList c w tr) = Inr JNull" by simp
    obtain v t0 where "getESSList c w tr = (Inr v, t0)"
      "effects t0 = effects tr @ calls c GET (BASEURL @ ''/getEssList'')"
      using getESSList_run by blast
    then have "effects (snd (getdata c w gp dl tr)) = effects tr @ calls c GET p"
      using getdata_absent [OF l, of gp dl] p by simp
    with sw getdata_absent [OF l, of gp dl] show ?thesis by simp
  qed
  have 4: "fst (getLastPowerData c w sn tr) = Inr JNull
          \<and> (\<exists>e t. snd (getLastPowerData c w sn tr) = t @ [Log ERROR (ErrorWhenCalling e p)])"
    if "p = BASEURL @ ''/getLastPowerData?sysSn='' @ py_str (render w) sn"
    using g unfolding that getLastPowerData_def Let_def by (rule guarded_get_swallows)
  have 5: "fst (getSumDataForCustomer c w sn tr) = Inr JNull
          \<and> (\<exists>e t. snd (getSumDataForCustomer c w sn tr) = t @ [Log ERROR (ErrorWhenCalling e p)])"
    if "p = BASEURL @ ''/getSumDataForCustomer?sysSn='' @ py_str (render w) sn"
    using g unfolding that getSumDataForCustomer_def Let_def by (rule guarded_get_swallows)
  have 6: "fst (getChargeConfigInfo c w sn tr) = Inr JNull
          \<and> (\<exists>e t. snd (getChargeConfigInfo c w sn tr) = t @ [Log ERROR (ErrorWhenCalling e p)])"
    if "p = BASEURL @ ''/getChargeConfigInfo?sysSn='' @ py_str (render w) sn"
    using g unfolding that getChargeConfigInfo_def Let_def by (rule guarded_get_swallows)
  have 7: "fst (getDisChargeConfigInfo c w sn tr) = Inr JNull
          \<and> (\<exists>e t. snd (getDisChargeConfigInfo c w sn tr) = t @ [Log ERROR (ErrorWhenCalling e p)])"
    if "p = BASEURL @ ''/getDisChargeConfigInfo?sysSn='' @ py_str (render w) sn"
    using g unfolding that getDisChargeConfigInfo_def Let_def by (rule guarded_get_swallows)
  have 8: "fst (getOneDateEnergyBySn c w sn q tr) = Inr JNull
          \<and> (\<exists>e t. snd (getOneDateEnergyBySn c w sn q tr) = t @ [Log ERROR (ErrorWhenCalling e p)])"
    if "p = BASEURL @ ''/getOneDateEnergyBySn?sysSn='' @ py_str (render w) sn
                 @ ''&queryDate='' @ local_date w tr"
    using g unfolding that getOneDateEnergyBySn_unfold by (rule guarded_get_swallows)
  have 9: "fst (getOneDayPowerBySn c w sn q tr) = Inr JNull
          \<and> (\<exists>e t. snd (getOneDayPowerBySn c w sn q tr) = t @ [Log ERROR (ErrorWhenCalling e p)])"
    if "p = BASEURL @ ''/getOneDayPowerBySn?sysSn='' @ py_str (render w) sn
                 @ ''&queryDate='' @ local_date w tr"
    using g unfolding that getOneDayPowerBySn_unfold by (rule guarded_get_swallows)
  have 10: "fst (updateChargeConfigInfo c w sn a1 a2 a3 a4 a5 a6 tr) = Inr JNull
          \<and> (\<exists>e t. snd (updateChargeConfigInfo c w sn a1 a2 a3 a4 a5 a6 tr) = t @ [Log ERROR (ErrorWhenCalling e p)])"
    if "p = BASEURL @ ''/updateChargeConfigInfo''"
    using po unfolding that updateChargeConfigInfo_def Let_def by (rule guarded_post_swallows)
  have 11: "fst (updateDisChargeConfigInfo c w sn a1 a2 a3 a4 a5 a6 tr) = Inr JNull
          \<and> (\<exists>e t. snd (updateDisChargeConfigInfo c w sn a1 a2 a3 a4 a5 a6 tr) = t @ [Log ERROR (ErrorWhenCalling e p)])"
    if "p = BASEURL @ ''/updateDisChargeConfigInfo''"
    using po unfolding that updateDisChargeConfigInfo_def Let_def by (rule guarded_post_swallows)
  from 1 2 3 4 5 6 7 8 9 10 11 show ?thesis by blast
qed

theorem transport_failure_policy_witness:
  "(\<forall>t m hs js j. http (world_of srv_down) t m (BASEURL @ ''/getEssList'') hs js
                     \<noteq> Response 200 (Body j))
   \<and> (\<exists>e. fst (api_get client0 (world_of srv_down) (BASEURL @ ''/getEssList'') []) = Inl e)
   \<and> (\<exists>e. fst (api_post client0 (world_of srv_down) (BASEURL @ ''/getEssList'') JNull []) = Inl e)
   \<and> fst (getESSList client0 (world_of srv_down) []) = Inr JNull
   \<and> fst (getdata client0 (world_of srv_down) True 1 []) = Inl TypeError
   \<and> effects (snd (getdata client0 (world_of srv_down) True 1 []))
       = [Call GET ''https://openapi.alphaess.com/api/getEssList'']
   \<and> fst (getLastPowerData client0 (world_of srv_down) (JStr ''X1'') []) = Inr JNull
   \<and> fst (getSumDataForCustomer client0 (world_of srv_down) (JStr ''X1'') []) = Inr JNull
   \<and> fst (getChargeConfigInfo client0 (world_of srv_down) (JStr ''X1'') []) = Inr JNull
   \<and> fst (getDisChargeConfigInfo client0 (world_of srv_down) (JStr ''X1'') []) = Inr JNull
   \<and> fst (getOneDateEnergyBySn client0 (world_of srv_down) (JStr ''X1'') (JStr ''2024-01-15'') [])
       = Inr JNull
   \<and> fst (getOneDayPowerBySn client0 (world_of srv_down) (JStr ''X1'') (JStr ''2024-01-15'') [])
       = Inr JNull
   \<and> fst (updateChargeConfigInfo client0 (world_of srv_down) (JStr ''X1'') (JInt 90) (JInt 1)
            (JStr ''06:00'') (JStr ''00:00'') (JStr ''01:00'') (JStr ''00:00'') []) = Inr JNull
   \<and> fst (updateDisChargeConfigInfo client0 (world_of srv_down) (JStr ''X1'') (JInt 10) (JInt 1)
            (JStr ''22:00'') (JStr ''00:00'') (JStr ''17:00'') (JStr ''00:00'') []) = Inr JNull"
proof -
  have h: "\<forall>t m hs js j. http (world_of srv_down) t m p hs js \<noteq> Response 200 (Body j)" for p
    by (simp add: world_of_def srv_down_def)
  note T = transport_failure_policy [OF h, where c = client0 and tr = "[]" and sn = "JStr ''X1''"]
  note T3 = T [THEN conjunct2, THEN conjunct2]
  note T4 = T3 [THEN conjunct2]
  note T5 = T4 [THEN conjunct2]
  note T6 = T5 [THEN conjunct2]
  note T7 = T6 [THEN conjunct2]
  note T8 = T7 [THEN conjunct2]
  note T9 = T8 [THEN conjunct2]
  note T10 = T9 [THEN conjunct2]
  note T11 = T10 [THEN conjunct2]
  note L = T3 [THEN conjunct1, THEN mp, OF refl]
  have a1: "\<exists>e. fst (api_get client0 (world_of srv_down) (BASEURL @ ''/getEssList'') []) = Inl e"
    using T [of "BASEURL @ ''/getEssList''", THEN conjunct1] by (elim exE conjE) (rule exI)
  have a2: "\<exists>e. fst (api_post client0 (world_of srv_down) (BASEURL @ ''/getEssList'') JNull []) = Inl e"
    using T [of "BASEURL @ ''/getEssList''" JNull, THEN conjunct2, THEN conjunct1]
    by (elim exE conjE) (rule exI)
  have a3: "fst (getESSList client0 (world_of srv_down) []) = Inr JNull"
    by (rule L [THEN conjunct1])
  have a4: "fst (getdata client0 (world_of srv_down) True 1 []) = Inl TypeError"
    by (rule L [THEN conjunct2, THEN conjunct2, THEN conjunct1])
  have "effects (snd (getdata client0 (world_of srv_down) True 1 []))
          = effects [] @ calls client0 GET (BASEURL @ ''/getEssList'')"
    by (rule L [THEN conjunct2, THEN conjunct2, THEN conjunct2, THEN conjunct2])
  then have a5: "effects (snd (getdata client0 (world_of srv_down) True 1 []))
       = [Call GET ''https://openapi.alphaess.com/api/getEssList'']"
    by (simp add: calls_def ascii_def client0_def BASEURL_def)
  have b: "fst (getLastPowerData client0 (world_of srv_down) (JStr ''X1'') []) = Inr JNull"
    by (rule T4 [THEN conjunct1, THEN mp, OF refl, THEN conjunct1])
  have c: "fst (getSumDataForCustomer client0 (world_of srv_down) (JStr ''X1'') []) = Inr JNull"
    by (rule T5 [THEN conjunct1, THEN mp, OF refl, THEN conjunct1])
  have d: "fst (getChargeConfigInfo client0 (world_of srv_down) (JStr ''X1'') []) = Inr JNull"
    by (rule T6 [THEN conjunct1, THEN mp, OF refl, THEN conjunct1])
  have e: "fst (getDisChargeConfigInfo client0 (world_of srv_down) (JStr ''X1'') []) = Inr JNull"
    by (rule T7 [THEN conjunct1, THEN mp, OF refl, THEN conjunct1])
  have f: "fst (getOneDateEnergyBySn client0 (world_of srv_down) (JStr ''X1'') (JStr ''2024-01-15'') [])
       = Inr JNull"
    by (rule T8 [THEN conjunct1, THEN mp, OF refl, THEN conjunct1])
  have g: "fst (getOneDayPowerBySn client0 (world_of srv_down) (JStr ''X1'') (JStr ''2024-01-15'') [])
       = Inr JNull"
    by (rule T9 [THEN conjunct1, THEN mp, OF refl, THEN conjunct1])
  have i: "fst (updateChargeConfigInfo client0 (world_of srv_down) (JStr ''X1'') (JInt 90) (JInt 1)
            (JStr ''06:00'') (JStr ''00:00'') (JStr ''01:00'') (JStr ''00:00'') []) = Inr JNull"
    by (rule T10 [THEN conjunct1, THEN mp, OF refl, THEN conjunct1])
  have k: "fst (updateDisChargeConfigInfo client0 (world_of srv_down) (JStr ''X1'') (JInt 10) (JInt 1)
            (JStr ''22:00'') (JStr ''00:00'') (JStr ''17:00'') (JStr ''00:00'') []) = Inr JNull"
    by (rule T11 [THEN mp, OF refl, THEN conjunct1])
  show ?thesis
    by (intro conjI) (rule h a1 a2 a3 a4 a5 b c d e f g i k)+
qed



text \<open>
  C4. After a list call that returned a list of devices, the requests and pauses of
  \<^verbatim>\<open>getdata\<close> are: the list request, then for each entry bearing \<^verbatim>\<open>sysSn\<close>, in
  list order, summary, pause, daily energy, pause, last power, pause, charge
  configuration, pause, discharge configuration, and, exactly when \<^verbatim>\<open>get_power\<close> is
  set, a pause and the power curve. The two dated requests of a device carry local dates
  read during the run (\<open>days\<close>). The records come back in the order of the list.
  (A request is sent only if the signature can be computed, see \<open>calls\<close>.)
\<close>

theorem getdata_call_order:
  assumes "fst (getESSList c w tr) = Inr (JArr units)" and "list_all is_device units"
  shows "\<exists>recs days.
           fst (getdata c w gp dl tr) = Inr recs
         \<and> map serial_of recs = map serial_of (filter has_sn units)
         \<and> length days = length (filter has_sn units)
         \<and> list_all (\<lambda>d. fst d \<in> range (local_date w) \<and> snd d \<in> range (local_date w)) days
         \<and> effects (snd (getdata c w gp dl tr))
             = effects tr @ calls c GET (BASEURL @ ''/getEssList'')
                 @ concat (map2 (\<lambda>u d. device_calls c w gp dl (fst d) (snd d) (serial_of u))
                             (filter has_sn units) days)"
proof -
  from getdata_run [OF assms, of gp dl]
  obtain recs tr' days where g: "getdata c w gp dl tr = (Inr recs, tr')"
    and en: "list_all2 (enriched gp) recs (filter has_sn units)"
    and ln: "length days = length (filter has_sn units)"
    and dy: "list_all (\<lambda>d. fst d \<in> range (local_date w) \<and> snd d \<in> range (local_date w)) days"
    and ef: "effects tr' = effects tr @ calls c GET (BASEURL @ ''/getEssList'')
                @ concat (map2 (\<lambda>u d. device_calls c w gp dl (fst d) (snd d) (serial_of u))
                            (filter has_sn units) days)"
    by blast
  have "list_all is_device (filter has_sn units)"
    using assms(2) by (simp add: list_all_iff)
  with en have "map serial_of recs = map serial_of (filter has_sn units)"
    by (rule enriched_serials)
  with g ln dy ef show ?thesis by auto
qed

theorem getdata_call_order_witness:
  "(fst (getESSList client0 (world_of srv_two) [])
      = Inr (JArr [JObj [(''sysSn'', JStr ''X1'')], JObj [(''sysSn'', JStr ''X2'')]])
    \<and> list_all is_device [JObj [(''sysSn'', JStr ''X1'')], JObj [(''sysSn'', JStr ''X2'')]])
   \<and> effects (snd (getdata client0 (world_of srv_two) True 2 []))
       = [Call GET ''https://openapi.alphaess.com/api/getEssList'',
          Call GET ''https://openapi.alphaess.com/api/getSumDataForCustomer?sysSn=X1'',
          Delay 2,
          Call GET ''https://openapi.alphaess.com/api/getOneDateEnergyBySn?sysSn=X1&queryDate=2024-01-15'',
          Delay 2,
          Call GET ''https://openapi.alphaess.com/api/getLastPowerData?sysSn=X1'',
          Delay 2,
          Call GET ''https://openapi.alphaess.com/api/getChargeConfigInfo?sysSn=X1'',
          Delay 2,
          Call GET ''https://openapi.alphaess.com/api/getDisChargeConfigInfo?sysSn=X1'',
          Delay 2,
          Call GET ''https://openapi.alphaess.com/api/getOneDayPowerBySn?sysSn=X1&queryDate=2024-01-15'',
          Call GET ''https://openapi.alphaess.com/api/getSumDataForCustomer?sysSn=X2'',
          Delay 2,
          Call GET ''https://openapi.alphaess.com/api/getOneDateEnergyBySn?sysSn=X2&queryDate=2024-01-15'',
          Delay 2,
          Call GET ''https://openapi.alphaess.com/api/getLastPowerData?sysSn=X2'',
          Delay 2,
          Call GET ''https://openapi.alphaess.com/api/getChargeConfigInfo?sysSn=X2'',
          Delay 2,
          Call GET ''https://openapi.alphaess.com/api/getDisChargeConfigInfo?sysSn=X2'',
          Delay 2,
          Call GET ''https://openapi.alphaess.com/api/getOneDayPowerBySn?sysSn=X2&queryDate=2024-01-15'']
   \<and> (\<exists>recs. fst (getdata client0 (world_of srv_two) True 2 []) = Inr recs
         \<and> map serial_of recs = [JStr ''X1'', JStr ''X2''])"
proof -
  have h2: "list_all is_device [JObj [(''sysSn'', JStr ''X1'')], JObj [(''sysSn'', JStr ''X2'')]]"
    by (simp add: is_device_def)
  have f: "filter has_sn [JObj [(''sysSn'', JStr ''X1'')], JObj [(''sysSn'', JStr ''X2'')]]
             = [JObj [(''sysSn'', JStr ''X1'')], JObj [(''sysSn'', JStr ''X2'')]]"
    by (simp add: has_sn_device)
  have rng: "range (local_date (world_of srv_two)) = {''2024-01-15''}"
    by (auto simp: world_of_def)
  from getdata_call_order [OF two_listed h2, of True 2]
  obtain recs days where
    r: "fst (getdata client0 (world_of srv_two) True 2 []) = Inr recs" and
    sr0: "map serial_of recs
           = map serial_of (filter has_sn [JObj [(''sysSn'', JStr ''X1'')], JObj [(''sysSn'', JStr ''X2'')]])" and
    ln0: "length days
           = length (filter has_sn [JObj [(''sysSn'', JStr ''X1'')], JObj [(''sysSn'', JStr ''X2'')]])" and
    dy0: "list_all (\<lambda>d. fst d \<in> range (local_date (world_of srv_two))
                        \<and> snd d \<in> range (local_date (world_of srv_two))) days" and
    ef0: "effects (snd (getdata client0 (world_of srv_two) True 2 []))
           = effects [] @ calls client0 GET (BASEURL @ ''/getEssList'')
               @ concat (map2 (\<lambda>u d. device_calls client0 (world_of srv_two) True 2
                                      (fst d) (snd d) (serial_of u))
                           (filter has_sn [JObj [(''sysSn'', JStr ''X1'')], JObj [(''sysSn'', JStr ''X2'')]])
                           days)"
    by blast
  have sr: "map serial_of recs
           = map serial_of [JObj [(''sysSn'', JStr ''X1'')], JObj [(''sysSn'', JStr ''X2'')]]"
    using sr0 unfolding f .
  have ln: "length days = 2" using ln0 unfolding f by simp
  have dy: "list_all (\<lambda>d. fst d = ''2024-01-15'' \<and> snd d = ''2024-01-15'') days"
    using dy0 unfolding rng by simp
  have ef: "effects (snd (getdata client0 (world_of srv_two) True 2 []))
           = effects [] @ calls client0 GET (BASEURL @ ''/getEssList'')
               @ concat (map2 (\<lambda>u d. device_calls client0 (world_of srv_two) True 2
                                      (fst d) (snd d) (serial_of u))
                           [JObj [(''sysSn'', JStr ''X1'')], JObj [(''sysSn'', JStr ''X2'')]] days)"
    using ef0 unfolding f .
  from ln obtain d1 d2 where days: "days = [d1, d2]"
    by (auto simp: length_Suc_conv numeral_2_eq_2)
  with dy have d: "d1 = (''2024-01-15'', ''2024-01-15'')" "d2 = (''2024-01-15'', ''2024-01-15'')"
    by (auto intro: prod_eqI)
  have e: "effects (snd (getdata client0 (world_of srv_two) True 2 [])) =
      [Call GET ''https://openapi.alphaess.com/api/getEssList'',
          Call GET ''https://openapi.alphaess.com/api/getSumDataForCustomer?sysSn=X1'',
          Delay 2,
          Call GET ''https://openapi.alphaess.com/api/getOneDateEnergyBySn?sysSn=X1&queryDate=2024-01-15'',
          Delay 2,
          Call GET ''https://openapi.alphaess.com/api/getLastPowerData?sysSn=X1'',
          Delay 2,
          Call GET ''https://openapi.alphaess.com/api/getChargeConfigInfo?sysSn=X1'',
          Delay 2,
          Call GET ''https://openapi.alphaess.com/api/getDisChargeConfigInfo?sysSn=X1'',
          Delay 2,
          Call GET ''https://openapi.alphaess.com/api/getOneDayPowerBySn?sysSn=X1&queryDate=2024-01-15'',
          Call GET ''https://openapi.alphaess.com/api/getSumDataForCustomer?sysSn=X2'',
          Delay 2,
          Call GET ''https://openapi.alphaess.com/api/getOneDateEnergyBySn?sysSn=X2&queryDate=2024-01-15'',
          Delay 2,
          Call GET ''https://openapi.alphaess.com/api/getLastPowerData?sysSn=X2'',
          Delay 2,
          Call GET ''https://openapi.alphaess.com/api/getChargeConfigInfo?sysSn=X2'',
          Delay 2,
          Call GET ''https://openapi.alphaess.com/api/getDisChargeConfigInfo?sysSn=X2'',
          Delay 2,
          Call GET ''https://openapi.alphaess.com/api/getOneDayPowerBySn?sysSn=X2&queryDate=2024-01-15'']"
    unfolding ef days d
    by (simp add: device_calls_def calls_def serial_of_def py_getitem_def ascii_def
        client0_def world_of_def BASEURL_def py_str_def)
  have s: "map serial_of recs = [JStr ''X1'', JStr ''X2'']"
    using sr by (simp add: serial_of_def py_getitem_def)
  have ex: "\<exists>recs. fst (getdata client0 (world_of srv_two) True 2 []) = Inr recs
         \<and> map serial_of recs = [JStr ''X1'', JStr ''X2'']"
    by (rule exI [of _ recs]) (simp add: r s)
  show ?thesis
    by (intro conjI) (rule two_listed h2 e ex)+
qed

text \<open>
  C5. The claim says that a transport failure during the probe propagates as a raised
  error. With the connection down, \<^verbatim>\<open>api_get\<close> raises the connection error, but
  \<^verbatim>\<open>getESSList\<close> catches it and returns \<^verbatim>\<open>None\<close>; what \<^verbatim>\<open>authenticate\<close> raises
  is the \<^verbatim>\<open>TypeError\<close> of iterating \<^verbatim>\<open>None\<close>, the very error it raises when the
  vendor refuses the list with a well-formed envelope.
\<close>

theorem authenticate_transport_error_lost_counterexample:
  "fst (api_get client0 (world_of srv_down) (BASEURL @ ''/getEssList'') [])
     = Inl ClientConnectionError
   \<and> fst (getESSList client0 (world_of srv_down) []) = Inr JNull
   \<and> fst (authenticate client0 (world_of srv_down) []) = Inl TypeError
   \<and> fst (authenticate client0 (world_of srv_failed) []) = Inl TypeError"
  by (simp add: run_defs world_defs srv_down_def srv_failed_def authenticate_def)

text \<open>
  C5, as the code has it. After a list call that returned a list of devices,
  \<^verbatim>\<open>authenticate\<close> returns whether some entry bears \<^verbatim>\<open>sysSn\<close>: true with one, false
  for the empty list and for a list without any. When the list call returned \<^verbatim>\<open>None\<close>,
  \<^verbatim>\<open>authenticate\<close> raises \<^verbatim>\<open>TypeError\<close> and does not return false; a transport
  failure of the list call is one such case, since \<^verbatim>\<open>getESSList\<close> turns it into
  \<^verbatim>\<open>None\<close>.
\<close>

theorem authenticate_probe:
  "(fst (getESSList c w tr) = Inr (JArr units) \<and> list_all is_device units \<longrightarrow>
      fst (authenticate c w tr) = Inr (list_ex has_sn units))
   \<and> (fst (getESSList c w tr) = Inr JNull \<longrightarrow> fst (authenticate c w tr) = Inl TypeError)
   \<and> ((\<forall>t hs j. http w t GET (BASEURL @ ''/getEssList'') hs (JObj []) \<noteq> Response 200 (Body j)) \<longrightarrow>
      fst (getESSList c w tr) = Inr JNull \<and> fst (authenticate c w tr) = Inl TypeError)"
proof (intro conjI impI)
  assume h: "fst (getESSList c w tr) = Inr (JArr units) \<and> list_all is_device units"
  obtain t0 where g: "getESSList c w tr = (Inr (JArr units), t0)"
    using h by (cases "getESSList c w tr") simp
  from h have "authenticate_loop units False = Inr (list_ex has_sn units)"
    by (simp add: authenticate_loop_devices)
  then show "fst (authenticate c w tr) = Inr (list_ex has_sn units)"
    using g by (simp add: authenticate_def try_except_def seq_def lift_def py_iter_def)
next
  assume "fst (getESSList c w tr) = Inr JNull"
  then show "fst (authenticate c w tr) = Inl TypeError" by (rule authenticate_absent)
next
  assume "\<forall>t hs j. http w t GET (BASEURL @ ''/getEssList'') hs (JObj []) \<noteq> Response 200 (Body j)"
  then show l: "fst (getESSList c w tr) = Inr JNull" by (intro getESSList_fails) blast
  show "fst (authenticate c w tr) = Inl TypeError" using l by (rule authenticate_absent)
qed

theorem authenticate_probe_witness:
  "(fst (getESSList client0 (world_of srv_one) []) = Inr (JArr [JObj [(''sysSn'', JStr ''X1'')]])
      \<and> list_all is_device [JObj [(''sysSn'', JStr ''X1'')]]
      \<and> fst (authenticate client0 (world_of srv_one) []) = Inr True)
   \<and> (fst (getESSList client0 (world_of srv_empty) []) = Inr (JArr [])
      \<and> fst (authenticate client0 (world_of srv_empty) []) = Inr False)
   \<and> (fst (getESSList client0 (world_of srv_no_serial) []) = Inr (JArr [JObj [(''name'', JStr ''spare'')]])
      \<and> fst (authenticate client0 (world_of srv_no_serial) []) = Inr False)
   \<and> (fst (getESSList client0 (world_of srv_failed) []) = Inr JNull
      \<and> fst (authenticate client0 (world_of srv_failed) []) = Inl TypeError)
   \<and> ((\<forall>t hs j. http (world_of srv_down) t GET (BASEURL @ ''/getEssList'') hs (JObj [])
                   \<noteq> Response 200 (Body j))
      \<and> fst (authenticate client0 (world_of srv_down) []) = Inl TypeError)"
proof -
  have a1: "fst (getESSList client0 (world_of srv_one) []) = Inr (JArr [JObj [(''sysSn'', JStr ''X1'')]])"
    by (simp add: run_defs world_defs srv_one_def)
  have a2: "list_all is_device [JObj [(''sysSn'', JStr ''X1'')]]" by (simp add: is_device_def)
  have b1: "fst (getESSList client0 (world_of srv_empty) []) = Inr (JArr [])"
    by (simp add: run_defs world_defs srv_empty_def)
  have c1: "fst (getESSList client0 (world_of srv_no_serial) []) = Inr (JArr [JObj [(''name'', JStr ''spare'')]])"
    by (simp add: run_defs world_defs srv_no_serial_def)
  have c2: "list_all is_device [JObj [(''name'', JStr ''spare'')]]" by (simp add: is_device_def)
  have d1: "fst (getESSList client0 (world_of srv_failed) []) = Inr JNull"
    by (simp add: run_defs world_defs srv_failed_def)
  have e1: "\<forall>t hs j. http (world_of srv_down) t GET (BASEURL @ ''/getEssList'') hs (JObj [])
                   \<noteq> Response 200 (Body j)"
    by (simp add: world_of_def srv_down_def)
  have a: "fst (authenticate client0 (world_of srv_one) []) = Inr True"
    using authenticate_probe [of client0 "world_of srv_one" "[]" "[JObj [(''sysSn'', JStr ''X1'')]]"] a1 a2
    by (simp add: has_sn_device)
  have b: "fst (authenticate client0 (world_of srv_empty) []) = Inr False"
    using authenticate_probe [of client0 "world_of srv_empty" "[]" "[]"] b1 by simp
  have c: "fst (authenticate client0 (world_of srv_no_serial) []) = Inr False"
    using authenticate_probe [of client0 "world_of srv_no_serial" "[]" "[JObj [(''name'', JStr ''spare'')]]"] c1 c2
    by (simp add: has_sn_device)
  have d: "fst (authenticate client0 (world_of srv_failed) []) = Inl TypeError"
    using authenticate_probe [of client0 "world_of srv_failed" "[]" "[]"] d1 by simp
  have e: "fst (authenticate client0 (world_of srv_down) []) = Inl TypeError"
    using authenticate_probe [of client0 "world_of srv_down" "[]" "[]"] e1 by blast
  show ?thesis using a1 a2 b1 c1 d1 e1 a b c d e by blast
qed

text \<open>
  C6. With the success marker, \<^verbatim>\<open>api_post\<close> returns \<^verbatim>\<open>data\<close>, null or not
  (lemma \<open>post_envelope_result\<close>). Without it, the claim says the response is logged as
  anomalous. There the code departs from it: on the body
  \<^verbatim>\<open>{"msg": "Failed", "data": null}\<close> \<^verbatim>\<open>api_post\<close> returns \<^verbatim>\<open>None\<close> and writes
  no log record at all; its only logging statement sits in the success branch
  (lemma \<open>post_envelope_logs\<close>).
\<close>

theorem api_post_failure_not_logged:
  "fst (api_post client0 (world_of srv_failed) (BASEURL @ ''/updateChargeConfigInfo'') js [])
     = Inr JNull
   \<and> filter is_log
        (snd (api_post client0 (world_of srv_failed) (BASEURL @ ''/updateChargeConfigInfo'') js []))
     = []"
  by (simp add: api_post_run fetch_run headers_run client0_def world_of_def srv_failed_def
      envelope_def post_envelope_def prog_defs py_in_def py_getitem_def ascii_def is_log_def)

text \<open>
  C7. Whatever \<^verbatim>\<open>queryDate\<close> is passed, the request of \<^verbatim>\<open>getOneDateEnergyBySn\<close> and
  of \<^verbatim>\<open>getOneDayPowerBySn\<close> carries the local date read at the call, and it is the only
  request of the operation. (A request is sent only if the signature can be computed,
  see \<open>calls\<close>.)
\<close>

theorem query_date_forced_to_local_date:
  "effects (snd (getOneDateEnergyBySn c w sysSn queryDate tr))
     = effects tr @ calls c GET (BASEURL @ ''/getOneDateEnergyBySn?sysSn='' @ py_str (render w) sysSn
                                  @ ''&queryDate='' @ local_date w tr)
   \<and> effects (snd (getOneDayPowerBySn c w sysSn queryDate tr))
     = effects tr @ calls c GET (BASEURL @ ''/getOneDayPowerBySn?sysSn='' @ py_str (render w) sysSn
                                  @ ''&queryDate='' @ local_date w tr)"
proof -
  obtain v1 t1 where "getOneDateEnergyBySn c w sysSn queryDate tr = (Inr v1, t1)"
    "effects t1 = effects tr @ calls c GET (BASEURL @ ''/getOneDateEnergyBySn?sysSn='' @ py_str (render w) sysSn
                                  @ ''&queryDate='' @ local_date w tr)"
    using getOneDateEnergyBySn_run by blast
  moreover obtain v2 t2 where "getOneDayPowerBySn c w sysSn queryDate tr = (Inr v2, t2)"
    "effects t2 = effects tr @ calls c GET (BASEURL @ ''/getOneDayPowerBySn?sysSn='' @ py_str (render w) sysSn
                                  @ ''&queryDate='' @ local_date w tr)"
    using getOneDayPowerBySn_run by blast
  ultimately show ?thesis by simp
qed

theorem query_date_forced_to_local_date_witness:
  "effects (snd (getOneDateEnergyBySn client0 (world_of srv_failed) (JStr ''X1'') (JStr ''1999-12-31'') []))
     = [Call GET ''https://openapi.alphaess.com/api/getOneDateEnergyBySn?sysSn=X1&queryDate=2024-01-15'']
   \<and> effects (snd (getOneDayPowerBySn client0 (world_of srv_failed) (JStr ''X1'') (JStr ''2024-01-15'') []))
     = [Call GET ''https://openapi.alphaess.com/api/getOneDayPowerBySn?sysSn=X1&queryDate=2024-01-15'']"
  using query_date_forced_to_local_date [of client0 "world_of srv_failed" "JStr ''X1''" "JStr ''1999-12-31''" "[]"]
    query_date_forced_to_local_date [of client0 "world_of srv_failed" "JStr ''X1''" "JStr ''2024-01-15''" "[]"]
  by (simp add: calls_def ascii_def client0_def world_of_def BASEURL_def py_str_def)

text \<open>
  C8. \<^verbatim>\<open>setbatterycharge\<close> and \<^verbatim>\<open>setbatterydischarge\<close> assign named fields onto a
  list: for every input the first assignment raises \<^verbatim>\<open>TypeError\<close>, the handler logs
  and re-raises it, and no request is sent (the run adds no HTTP event to the trace).
\<close>

theorem setbattery_raises_before_post:
  "setbatterycharge c w serial enabled cp1start cp1end cp2start cp2end chargestopsoc tr
     = (Inl TypeError, tr @ [Log ERROR (Exc TypeError)])
   \<and> setbatterydischarge c w serial enabled dp1start dp1end dp2start dp2end dischargecutoffsoc tr
     = (Inl TypeError, tr @ [Log ERROR (Exc TypeError)])
   \<and> filter is_http
         (snd (setbatterycharge c w serial enabled cp1start cp1end cp2start cp2end chargestopsoc tr))
     = filter is_http tr
   \<and> filter is_http
         (snd (setbatterydischarge c w serial enabled dp1start dp1end dp2start dp2end
                 dischargecutoffsoc tr))
     = filter is_http tr"
  by (simp add: setbatterycharge_def setbatterydischarge_def py_setitem_def seq_def lift_def
      try_except_def log_and_reraise_run is_http_def)

text \<open>
  C9. The claim says the signature changes when any of the three inputs changes. The three
  strings are concatenated without a separator, so moving a character across a boundary
  changes two inputs and leaves the signature as it was.
\<close>

theorem sign_unchanged_counterexample:
  "''ab'' \<noteq> ''a'' \<and> ''c'' \<noteq> ''bc''
   \<and> sign ''ab'' ''c'' ''1700000000'' = Inr (hexdigest (sha512 (map of_char ''abc1700000000'')))
   \<and> sign ''a'' ''bc'' ''1700000000'' = Inr (hexdigest (sha512 (map of_char ''abc1700000000'')))"
  by (simp add: sign_ascii ascii_def)

text \<open>
  C9, as the code has it. The \<^verbatim>\<open>timestamp\<close> entry is the decimal string of the clock
  reading, and the \<^verbatim>\<open>sign\<close> entry is computed from that same string: it is the
  SHA-512 hex digest, 128 characters, of the ASCII bytes of appId, appSecret and timestamp
  string concatenated. The signature depends on the concatenation alone, hence it is the
  same for a same triple; and changing exactly one of the three inputs changes the string
  that is hashed.
\<close>

theorem sign_is_digest_of_concatenation:
  "headers c w tr =
     (case sign (appID c) (appSecret c) (str_int (unix_time w tr)) of
        Inl e \<Rightarrow> (Inl e, tr)
      | Inr sg \<Rightarrow> (Inr (mk_headers c (str_int (unix_time w tr)) sg), tr))
   \<and> sign a s t =
       (if ascii (a @ s @ t) then Inr (hexdigest (sha512 (map of_char (a @ s @ t))))
        else Inl UnicodeEncodeError)
   \<and> length (hexdigest (sha512 bs)) = 128
   \<and> (a @ s @ t = a' @ s' @ t' \<longrightarrow> sign a s t = sign a' s' t')
   \<and> (a \<noteq> a' \<longrightarrow> a @ s @ str_int n \<noteq> a' @ s @ str_int n)
   \<and> (s \<noteq> s' \<longrightarrow> a @ s @ str_int n \<noteq> a @ s' @ str_int n)
   \<and> (n \<noteq> n' \<longrightarrow> a @ s @ str_int n \<noteq> a @ s @ str_int n')"
proof (intro conjI impI)
  show "headers c w tr =
     (case sign (appID c) (appSecret c) (str_int (unix_time w tr)) of
        Inl e \<Rightarrow> (Inl e, tr)
      | Inr sg \<Rightarrow> (Inr (mk_headers c (str_int (unix_time w tr)) sg), tr))"
    by (simp add: headers_def prog_defs mk_headers_def Let_def split: sum.splits)
  show "sign a s t =
       (if ascii (a @ s @ t) then Inr (hexdigest (sha512 (map of_char (a @ s @ t))))
        else Inl UnicodeEncodeError)"
    by (rule sign_ascii)
  show "length (hexdigest (sha512 bs)) = 128" by (rule hexdigest_length)
  show "sign a s t = sign a' s' t'" if "a @ s @ t = a' @ s' @ t'"
    using that by (simp add: sign_def)
  show "a @ s @ str_int n \<noteq> a' @ s @ str_int n" if "a \<noteq> a'"
    using that by simp
  show "a @ s @ str_int n \<noteq> a @ s' @ str_int n" if "s \<noteq> s'"
    using that by simp
  show "a @ s @ str_int n \<noteq> a @ s @ str_int n'" if "n \<noteq> n'"
    using that str_int_inj by auto
qed

theorem sign_is_digest_of_concatenation_witness:
  "(''ab'' @ ''c'' @ ''1700000000'' = ''a'' @ ''bc'' @ ''1700000000''
      \<and> sign ''ab'' ''c'' ''1700000000'' = sign ''a'' ''bc'' ''1700000000'')
   \<and> (''ab'' \<noteq> ''a'' \<and> ''ab'' @ ''c'' @ str_int 5 \<noteq> ''a'' @ ''c'' @ str_int 5)
   \<and> (''c'' \<noteq> ''bc'' \<and> ''ab'' @ ''c'' @ str_int 5 \<noteq> ''ab'' @ ''bc'' @ str_int 5)
   \<and> ((5::int) \<noteq> 6 \<and> ''ab'' @ ''c'' @ str_int 5 \<noteq> ''ab'' @ ''c'' @ str_int 6)"
proof -
  note T = sign_is_digest_of_concatenation [of client0 "world_of srv_down" "[]" "''ab''" "''c''"
      "''1700000000''" "[]" "''a''" "''bc''" "''1700000000''" 5 6]
  have e: "''ab'' @ ''c'' @ ''1700000000'' = ''a'' @ ''bc'' @ ''1700000000''" by simp
  have n1: "''ab'' \<noteq> ''a''" by simp
  have n2: "''c'' \<noteq> ''bc''" by simp
  have n3: "(5::int) \<noteq> 6" by simp
  from T e have c1: "sign ''ab'' ''c'' ''1700000000'' = sign ''a'' ''bc'' ''1700000000''" by blast
  from T n1 have c2: "''ab'' @ ''c'' @ str_int 5 \<noteq> ''a'' @ ''c'' @ str_int 5" by blast
  from T n2 have c3: "''ab'' @ ''c'' @ str_int 5 \<noteq> ''ab'' @ ''bc'' @ str_int 5" by blast
  from T n3 have c4: "''ab'' @ ''c'' @ str_int 5 \<noteq> ''ab'' @ ''c'' @ str_int 6" by blast
  show ?thesis using e n1 n2 n3 c1 c2 c3 c4 by blast
qed

text \<open>
  C10. An entry for which \<^verbatim>\<open>"sysSn" in unit\<close> is false is skipped with no effect at
  all: the loop runs exactly as on the list without such entries, so no sub-call is made
  and no pause is taken for them and they are not in the result. When the list call
  returned a list holding only such entries, the empty list included, \<^verbatim>\<open>getdata\<close>
  returns the empty sequence and the trace is the one the list call left.
\<close>

theorem getdata_skips_entries_without_serial:
  "getdata_loop c w gp dl us acc tr
     = getdata_loop c w gp dl (filter (\<lambda>u. \<not> lacks_sn u) us) acc tr
   \<and> (fst (getESSList c w tr) = Inr (JArr units) \<and> list_all lacks_sn units \<longrightarrow>
        getdata c w gp dl tr = (Inr [], snd (getESSList c w tr)))"
proof (intro conjI impI)
  show "getdata_loop c w gp dl us acc tr
     = getdata_loop c w gp dl (filter (\<lambda>u. \<not> lacks_sn u) us) acc tr"
    by (rule getdata_loop_skip)
next
  assume h: "fst (getESSList c w tr) = Inr (JArr units) \<and> list_all lacks_sn units"
  obtain t0 where g: "getESSList c w tr = (Inr (JArr units), t0)"
    using h by (cases "getESSList c w tr") simp
  from h have "filter (\<lambda>u. \<not> lacks_sn u) units = []"
    by (simp add: list_all_iff)
  then have "getdata_loop c w gp dl units [] t0 = (Inr [], t0)"
    using getdata_loop_skip [of c w gp dl units "[]" t0] by (simp add: ret_def)
  then show "getdata c w gp dl tr = (Inr [], snd (getESSList c w tr))"
    using g by (simp add: getdata_def try_except_def seq_def lift_def py_iter_def)
qed

theorem getdata_skips_entries_without_serial_witness:
  "(fst (getESSList client0 (world_of srv_no_serial) []) = Inr (JArr [JObj [(''name'', JStr ''spare'')]])
    \<and> list_all lacks_sn [JObj [(''name'', JStr ''spare'')]])
   \<and> getdata client0 (world_of srv_no_serial) True 1 []
       = (Inr [], snd (getESSList client0 (world_of srv_no_serial) []))
   \<and> (fst (getESSList client0 (world_of srv_empty) []) = Inr (JArr []) \<and> list_all lacks_sn [])
   \<and> getdata client0 (world_of srv_empty) True 1 []
       = (Inr [], snd (getESSList client0 (world_of srv_empty) []))"
proof -
  have a: "fst (getESSList client0 (world_of srv_no_serial) []) = Inr (JArr [JObj [(''name'', JStr ''spare'')]])
    \<and> list_all lacks_sn [JObj [(''name'', JStr ''spare'')]]"
    by (simp add: run_defs world_defs srv_no_serial_def lacks_sn_def)
  have b: "fst (getESSList client0 (world_of srv_empty) []) = Inr (JArr []) \<and> list_all lacks_sn []"
    by (simp add: run_defs world_defs srv_empty_def)
  show ?thesis
    using a b
      getdata_skips_entries_without_serial [of client0 "world_of srv_no_serial" True 1 "[]" "[]" "[]"
        "[JObj [(''name'', JStr ''spare'')]]"]
      getdata_skips_entries_without_serial [of client0 "world_of srv_empty" True 1 "[]" "[]" "[]" "[]"]
    by blast
qed

end
